theory Spec2Isabelle
  imports Complex_Main
begin

section \<open>Values exchanged with the external libraries\<close>

text \<open>
  The notebooks are glue code over DGL, PyTorch and scikit-learn. The embedding keeps the
  notebooks' own functions (\<open>SAGEConv.forward\<close>, \<open>DotPredictor.forward\<close>, \<open>Model.forward\<close>,
  \<open>GCN.forward\<close>, \<open>train\<close>, \<open>inference\<close>, \<open>evaluate\<close> and the link-prediction training
  loop) as HOL functions. What a library does is either written out from its documented
  behaviour (feature dictionaries, \<open>local_scope\<close>, \<open>update_all\<close> with the built-ins
  \<open>copy_u\<close> and \<open>mean\<close>, \<open>apply_edges\<close> with \<open>u_dot_v\<close>, \<open>torch.cat\<close>, indexing) or taken as a
  parameter (layers, losses, optimisers), acting on a library state the notebooks never
  look into.

  Exceptions are values. The notebooks define no exception class, so every constructor
  below is an exception of Python or of a library.
\<close>

datatype exn =
  IndexError | KeyError | TypeError | ValueError | RuntimeError | DGLError
  | LibError nat

text \<open>
  A Python float that may be not-a-number: the mean of an empty tensor is \<open>nan\<close>, and
  every comparison with \<open>nan\<close> is false. Finite floats are read as the reals they denote.
\<close>

datatype pyfloat = Num real | NaN

fun flt_less :: "pyfloat \<Rightarrow> pyfloat \<Rightarrow> bool" where
  "flt_less (Num a) (Num b) = (a < b)"
| "flt_less _ _ = False"

text \<open>
  The value of a loss, \<open>loss.item()\<close>: a finite float, or one of \<open>inf\<close>, \<open>-inf\<close>, \<open>nan\<close>.
  \<open>np.abs(loss - prev_loss) < 1e-4\<close> is false as soon as one of the two is not finite.
\<close>

datatype lossval = Fin real | NonFinite

fun converged :: "lossval \<Rightarrow> lossval \<Rightarrow> bool" where
  "converged (Fin a) (Fin b) = (\<bar>a - b\<bar> < 1 / 10000)"
| "converged _ _ = False"

text \<open>A two-dimensional float tensor with its shape; a zero-row tensor keeps its width.\<close>

record tensor =
  ncols :: nat
  rows :: "real list list"

definition wf_tensor :: "tensor \<Rightarrow> bool" where
  "wf_tensor t = list_all (\<lambda>r. length r = ncols t) (rows t)"

definition nrows :: "tensor \<Rightarrow> nat" where
  "nrows t = length (rows t)"

text \<open>What a feature dictionary holds: float matrices, integer vectors, boolean masks.\<close>

datatype tval = Mat tensor | Ints "int list" | Bools "bool list"

fun tlen :: "tval \<Rightarrow> nat" where
  "tlen (Mat t) = nrows t"
| "tlen (Ints xs) = length xs"
| "tlen (Bools bs) = length bs"

fun as_mat :: "tval \<Rightarrow> exn + tensor" where
  "as_mat (Mat t) = Inr t"
| "as_mat _ = Inl TypeError"

fun as_ints :: "tval \<Rightarrow> exn + int list" where
  "as_ints (Ints xs) = Inr xs"
| "as_ints _ = Inl TypeError"

fun as_bools :: "tval \<Rightarrow> exn + bool list" where
  "as_bools (Bools bs) = Inr bs"
| "as_bools _ = Inl TypeError"

section \<open>Graphs and their feature dictionaries\<close>

text \<open>
  A DGL graph as the notebooks see it: node counts, the edge list (\<open>(u, v)\<close> is an edge
  from source \<open>u\<close> to destination \<open>v\<close>, in edge-id order) and the feature dictionaries.
  On a homogeneous graph \<open>srcdata\<close>, \<open>dstdata\<close> and \<open>ndata\<close> are one dictionary under three
  names (\<open>Shared\<close>); on a message flow graph the source and the destination nodes have a
  dictionary each (\<open>Split\<close>).
\<close>

type_synonym frame = "string \<Rightarrow> tval option"

datatype node_frames = Shared frame | Split frame frame

record graph =
  num_src :: nat
  num_dst :: nat
  edges :: "(nat \<times> nat) list"
  nodes :: node_frames
  edata :: frame

definition is_block :: "graph \<Rightarrow> bool" where
  "is_block g = (case nodes g of Shared f \<Rightarrow> False | Split s d \<Rightarrow> True)"

definition wf_graph :: "graph \<Rightarrow> bool" where
  "wf_graph g = (list_all (\<lambda>(u, v). u < num_src g \<and> v < num_dst g) (edges g)
     \<and> (is_block g \<or> num_src g = num_dst g))"

definition src_frame :: "graph \<Rightarrow> frame" where
  "src_frame g = (case nodes g of Shared f \<Rightarrow> f | Split s d \<Rightarrow> s)"

definition dst_frame :: "graph \<Rightarrow> frame" where
  "dst_frame g = (case nodes g of Shared f \<Rightarrow> f | Split s d \<Rightarrow> d)"

definition lookup :: "frame \<Rightarrow> string \<Rightarrow> exn + tval" where
  "lookup f k = (case f k of None \<Rightarrow> Inl KeyError | Some v \<Rightarrow> Inr v)"

text \<open>
  \<open>g.srcdata[k] = v\<close>, \<open>g.dstdata[k] = v\<close>, \<open>g.ndata[k] = v\<close>: the library refuses a feature
  whose first dimension is not the number of nodes. \<open>ndata\<close> of a graph with separate
  source and destination dictionaries is not a tensor store, and using it as one fails.
\<close>

definition srcdata_set :: "string \<Rightarrow> tval \<Rightarrow> graph \<Rightarrow> exn + graph" where
  "srcdata_set k v g =
     (if tlen v \<noteq> num_src g then Inl DGLError
      else Inr (g\<lparr>nodes := (case nodes g of
                  Shared f \<Rightarrow> Shared (f(k \<mapsto> v))
                | Split s d \<Rightarrow> Split (s(k \<mapsto> v)) d)\<rparr>))"

definition dstdata_set :: "string \<Rightarrow> tval \<Rightarrow> graph \<Rightarrow> exn + graph" where
  "dstdata_set k v g =
     (if tlen v \<noteq> num_dst g then Inl DGLError
      else Inr (g\<lparr>nodes := (case nodes g of
                  Shared f \<Rightarrow> Shared (f(k \<mapsto> v))
                | Split s d \<Rightarrow> Split s (d(k \<mapsto> v)))\<rparr>))"

definition ndata_set :: "string \<Rightarrow> tval \<Rightarrow> graph \<Rightarrow> exn + graph" where
  "ndata_set k v g =
     (case nodes g of
        Split s d \<Rightarrow> Inl DGLError
      | Shared f \<Rightarrow>
          if tlen v \<noteq> num_src g then Inl DGLError
          else Inr (g\<lparr>nodes := Shared (f(k \<mapsto> v))\<rparr>))"

definition srcdata_get :: "string \<Rightarrow> graph \<Rightarrow> exn + tval" where
  "srcdata_get k g = lookup (src_frame g) k"

definition dstdata_get :: "string \<Rightarrow> graph \<Rightarrow> exn + tval" where
  "dstdata_get k g = lookup (dst_frame g) k"

definition ndata_get :: "string \<Rightarrow> graph \<Rightarrow> exn + tval" where
  "ndata_get k g =
     (case nodes g of Split s d \<Rightarrow> Inl DGLError | Shared f \<Rightarrow> lookup f k)"

definition edata_get :: "string \<Rightarrow> graph \<Rightarrow> exn + tval" where
  "edata_get k g = lookup (edata g) k"

subsection \<open>Message passing built-ins\<close>

text \<open>
  \<open>fn.copy_u(u, m)\<close> sends the source feature \<open>u\<close> along every edge as message \<open>m\<close>;
  \<open>fn.mean(m, out)\<close> averages the messages a destination node receives into \<open>out\<close>. The
  library computes the mean as the sum of the messages divided by the in-degree clamped
  to at least one, so a node that receives nothing gets zeros.
\<close>

datatype message_fn = copy_u string string

datatype reduce_fn = mean string string

datatype edge_fn = u_dot_v string string string

definition mailbox :: "graph \<Rightarrow> tensor \<Rightarrow> nat \<Rightarrow> real list list" where
  "mailbox g x v = map (\<lambda>(u, w). rows x ! u) (filter (\<lambda>(u, w). w = v) (edges g))"

definition sum_rows :: "nat \<Rightarrow> real list list \<Rightarrow> real list" where
  "sum_rows c msgs = foldr (\<lambda>r acc. map2 (+) r acc) msgs (replicate c 0)"

definition mean_reduce :: "nat \<Rightarrow> real list list \<Rightarrow> real list" where
  "mean_reduce c msgs = map (\<lambda>s. s / real (max 1 (length msgs))) (sum_rows c msgs)"

fun update_all :: "message_fn \<Rightarrow> reduce_fn \<Rightarrow> graph \<Rightarrow> exn + graph" where
  "update_all (copy_u uf m) (mean m' out) g =
     (if m \<noteq> m' then Inl KeyError
      else case srcdata_get uf g of
        Inl e \<Rightarrow> Inl e
      | Inr (Mat x) \<Rightarrow>
          dstdata_set out
            (Mat \<lparr>ncols = ncols x,
                  rows = map (\<lambda>v. mean_reduce (ncols x) (mailbox g x v)) [0..<num_dst g]\<rparr>) g
      | Inr _ \<Rightarrow> Inl DGLError)"

definition dot :: "real list \<Rightarrow> real list \<Rightarrow> real" where
  "dot a b = sum_list (map2 (*) a b)"

text \<open>
  \<open>g.apply_edges(fn.u_dot_v(l, r, out))\<close>: for every edge the dot product of the source
  feature \<open>l\<close> and the destination feature \<open>r\<close>, stored as a one-element vector per edge.
\<close>

fun apply_edges :: "edge_fn \<Rightarrow> graph \<Rightarrow> exn + graph" where
  "apply_edges (u_dot_v lf rf out) g =
     (case srcdata_get lf g of
        Inl e \<Rightarrow> Inl e
      | Inr a \<Rightarrow>
         (case dstdata_get rf g of
            Inl e \<Rightarrow> Inl e
          | Inr b \<Rightarrow>
             (case (a, b) of
                (Mat x, Mat y) \<Rightarrow>
                  if ncols x \<noteq> ncols y then Inl DGLError
                  else Inr (g\<lparr>edata := (edata g)(out \<mapsto>
                         Mat \<lparr>ncols = 1,
                              rows = map (\<lambda>(u, v). [dot (rows x ! u) (rows y ! v)]) (edges g)\<rparr>)\<rparr>)
              | _ \<Rightarrow> Inl DGLError)))"

section \<open>Tensor operations\<close>

text \<open>\<open>torch.cat([a, b], dim=1)\<close>: the rows side by side; the row counts must agree.\<close>

definition hcat :: "tensor \<Rightarrow> tensor \<Rightarrow> tensor" where
  "hcat a b = \<lparr>ncols = ncols a + ncols b, rows = map2 (@) (rows a) (rows b)\<rparr>"

definition cat1 :: "tensor \<Rightarrow> tensor \<Rightarrow> exn + tensor" where
  "cat1 a b = (if nrows a \<noteq> nrows b then Inl RuntimeError else Inr (hcat a b))"

definition relu :: "tensor \<Rightarrow> tensor" where
  "relu t = t\<lparr>rows := map (map (max 0)) (rows t)\<rparr>"

text \<open>\<open>x[:n]\<close>: the first \<open>n\<close> rows; a slice never raises.\<close>

definition take_rows :: "nat \<Rightarrow> tensor \<Rightarrow> tensor" where
  "take_rows n t = t\<lparr>rows := take n (rows t)\<rparr>"

text \<open>\<open>t[:, 0]\<close>: the first column.\<close>

definition col0 :: "tensor \<Rightarrow> exn + real list" where
  "col0 t = (if ncols t = 0 then Inl IndexError else Inr (map (\<lambda>r. r ! 0) (rows t)))"

section \<open>Programs: state, exceptions and the trace of library calls\<close>

text \<open>
  A program takes a state and returns either an exception or a value, with the new state.
  The state of a traced program is a pair of the objects it works on and the trace: the
  library calls that returned, in order, and the exception a library call raised.
\<close>

datatype event =
    Raised exn
  | UpdateAll message_fn reduce_fn
  | ApplyEdges edge_fn
  | LinearCall
  | ConvCall nat
  | ModelCall tensor
  | CrossEntropy tensor "int list"
  | BCELoss "real list" "real list"
  | ZeroGrad
  | Backward
  | OptStep
  | NewOptimizer
  | NewLinear nat nat
  | ClassifierCall
  | LossEval lossval
  | EvalMode
  | TrainMode
  | Batches nat
  | SetPostfix lossval
  | Save string
  | PrintTrain nat lossval pyfloat pyfloat pyfloat pyfloat
  | PrintEval nat pyfloat pyfloat
  | PrintConverged nat

type_synonym ('s, 'a) prog = "'s \<Rightarrow> (exn + 'a) \<times> 's"

definition ret :: "'a \<Rightarrow> ('s, 'a) prog" where
  "ret v = (\<lambda>s. (Inr v, s))"

definition bind :: "('s, 'a) prog \<Rightarrow> ('a \<Rightarrow> ('s, 'b) prog) \<Rightarrow> ('s, 'b) prog" where
  "bind m f = (\<lambda>s. case m s of (Inl e, s') \<Rightarrow> (Inl e, s') | (Inr v, s') \<Rightarrow> f v s')"

definition emit :: "event \<Rightarrow> ('x \<times> event list, unit) prog" where
  "emit ev = (\<lambda>(x, l). (Inr (), (x, l @ [ev])))"

text \<open>The outcome of a library operation that has no effect on the state.\<close>

definition of_result :: "exn + 'a \<Rightarrow> ('x \<times> event list, 'a) prog" where
  "of_result r = (\<lambda>(x, l). case r of Inl e \<Rightarrow> (Inl e, (x, l @ [Raised e])) | Inr v \<Rightarrow> (Inr v, (x, l)))"

text \<open>A library operation on the graph the program works on: a read, and an update.\<close>

definition gread :: "(graph \<Rightarrow> exn + 'a) \<Rightarrow> (graph \<times> event list, 'a) prog" where
  "gread f = (\<lambda>(g, l). of_result (f g) (g, l))"

definition gop :: "(graph \<Rightarrow> exn + graph) \<Rightarrow> (graph \<times> event list, unit) prog" where
  "gop f = (\<lambda>(g, l). case f g of Inl e \<Rightarrow> (Inl e, (g, l @ [Raised e])) | Inr g' \<Rightarrow> (Inr (), (g', l)))"

text \<open>
  \<open>with g.local_scope(): body\<close>: whatever the body assigns into the feature dictionaries
  is dropped when the block is left, by return or by exception.
\<close>

definition local_scope :: "(graph \<times> event list, 'a) prog \<Rightarrow> (graph \<times> event list, 'a) prog" where
  "local_scope body = (\<lambda>(g, l). case body (g, l) of
      (r, (g', l')) \<Rightarrow> (r, (g'\<lparr>nodes := nodes g, edata := edata g\<rparr>, l')))"

text \<open>A call of a linear layer \<open>self.linear(x)\<close>; the layer is a function of its input.\<close>

definition linear :: "(tensor \<Rightarrow> exn + tensor) \<Rightarrow> tensor \<Rightarrow> ('x \<times> event list, tensor) prog" where
  "linear lin x = bind (of_result (lin x)) (\<lambda>y. bind (emit LinearCall) (\<lambda>_. ret y))"

definition g_update_all :: "message_fn \<Rightarrow> reduce_fn \<Rightarrow> (graph \<times> event list, unit) prog" where
  "g_update_all mf rf = bind (gop (update_all mf rf)) (\<lambda>_. emit (UpdateAll mf rf))"

definition g_apply_edges :: "edge_fn \<Rightarrow> (graph \<times> event list, unit) prog" where
  "g_apply_edges ef = bind (gop (apply_edges ef)) (\<lambda>_. emit (ApplyEdges ef))"

section \<open>The graph convolution modules of the message passing notebook\<close>

text \<open>
  \<open>SAGEConv.forward(g, h)\<close> for stochastic training (L4\_message\_passing, cell 9):
  \<^verbatim>\<open>
  with g.local_scope():
      h_src, h_dst = h
      g.srcdata['h'] = h_src
      g.dstdata['h'] = h_dst
      g.update_all(fn.copy_u('h', 'm'), fn.mean('m', 'h_N'))
      h_N = g.dstdata['h_N']
      h_total = torch.cat([h_dst, h_N], dim=1)
      return self.linear(h_total)
  \<close>
\<close>

definition SAGEConv_body ::
  "(tensor \<Rightarrow> exn + tensor) \<Rightarrow> tensor \<times> tensor \<Rightarrow> (graph \<times> event list, tensor) prog" where
  "SAGEConv_body lin h =
     (case h of (h_src, h_dst) \<Rightarrow>
        bind (gop (srcdata_set ''h'' (Mat h_src))) (\<lambda>_.
        bind (gop (dstdata_set ''h'' (Mat h_dst))) (\<lambda>_.
        bind (g_update_all (copy_u ''h'' ''m'') (mean ''m'' ''h_N'')) (\<lambda>_.
        bind (gread (dstdata_get ''h_N'')) (\<lambda>v.
        bind (of_result (as_mat v)) (\<lambda>h_N.
        bind (of_result (cat1 h_dst h_N)) (\<lambda>h_total.
        linear lin h_total)))))))"

definition SAGEConv_forward ::
  "(tensor \<Rightarrow> exn + tensor) \<Rightarrow> tensor \<times> tensor \<Rightarrow> (graph \<times> event list, tensor) prog" where
  "SAGEConv_forward lin h = local_scope (SAGEConv_body lin h)"

text \<open>
  The full-graph \<open>SAGEConv.forward(g, h)\<close> (cell 10):
  \<^verbatim>\<open>
  with g.local_scope():
      g.ndata['h'] = h
      g.update_all(message_func=fn.copy_u('h', 'm'), reduce_func=fn.mean('m', 'h_N'))
      h_N = g.ndata['h_N']
      h_total = torch.cat([h, h_N], dim=1)
      return self.linear(h_total)
  \<close>
\<close>

definition SAGEConv_full_forward ::
  "(tensor \<Rightarrow> exn + tensor) \<Rightarrow> tensor \<Rightarrow> (graph \<times> event list, tensor) prog" where
  "SAGEConv_full_forward lin h =
     local_scope (
        bind (gop (ndata_set ''h'' (Mat h))) (\<lambda>_.
        bind (g_update_all (copy_u ''h'' ''m'') (mean ''m'' ''h_N'')) (\<lambda>_.
        bind (gread (ndata_get ''h_N'')) (\<lambda>v.
        bind (of_result (as_mat v)) (\<lambda>h_N.
        bind (of_result (cat1 h h_N)) (\<lambda>h_total.
        linear lin h_total))))))"

text \<open>
  \<open>SAGEConvForBoth.forward(g, h)\<close> (cell 11), where \<open>h\<close> is a tensor or a pair:
  \<^verbatim>\<open>
  with g.local_scope():
      if isinstance(h, tuple):
          h_src, h_dst = h
      else:
          h_src = h_dst = h
      g.srcdata['h'] = h_src
      g.update_all(message_func=fn.copy_u('h', 'm'), reduce_func=fn.mean('m', 'h_N'))
      h_N = g.ndata['h_N']
      h_total = torch.cat([h_dst, h_N], dim=1)
      return self.linear(h_total)
  \<close>
\<close>

datatype feat_arg = Single tensor | Tuple tensor tensor

fun unpack :: "feat_arg \<Rightarrow> tensor \<times> tensor" where
  "unpack (Tuple h_src h_dst) = (h_src, h_dst)"
| "unpack (Single h) = (h, h)"

definition SAGEConvForBoth_forward ::
  "(tensor \<Rightarrow> exn + tensor) \<Rightarrow> feat_arg \<Rightarrow> (graph \<times> event list, tensor) prog" where
  "SAGEConvForBoth_forward lin h =
     local_scope (
        case unpack h of (h_src, h_dst) \<Rightarrow>
        bind (gop (srcdata_set ''h'' (Mat h_src))) (\<lambda>_.
        bind (g_update_all (copy_u ''h'' ''m'') (mean ''m'' ''h_N'')) (\<lambda>_.
        bind (gread (ndata_get ''h_N'')) (\<lambda>v.
        bind (of_result (as_mat v)) (\<lambda>h_N.
        bind (of_result (cat1 h_dst h_N)) (\<lambda>h_total.
        linear lin h_total))))))"

text \<open>
  \<open>DotPredictor.forward(g, h)\<close> of the link prediction notebook:
  \<^verbatim>\<open>
  with g.local_scope():
      g.ndata['h'] = h
      g.apply_edges(fn.u_dot_v('h', 'h', 'score'))
      return g.edata['score'][:, 0]
  \<close>
\<close>

definition DotPredictor_body :: "tensor \<Rightarrow> (graph \<times> event list, real list) prog" where
  "DotPredictor_body h =
     bind (gop (ndata_set ''h'' (Mat h))) (\<lambda>_.
     bind (g_apply_edges (u_dot_v ''h'' ''h'' ''score'')) (\<lambda>_.
     bind (gread (edata_get ''score'')) (\<lambda>v.
     bind (of_result (as_mat v)) (\<lambda>score.
     of_result (col0 score)))))"

definition DotPredictor_forward :: "tensor \<Rightarrow> (graph \<times> event list, real list) prog" where
  "DotPredictor_forward h = local_scope (DotPredictor_body h)"

section \<open>More tensor operations\<close>

text \<open>
  \<open>t.argmax(1)\<close>: for every row the index of its first largest entry. A tensor without
  columns has no argmax; PyTorch and NumPy raise different exceptions for it.
\<close>

fun argmax_from :: "nat \<Rightarrow> nat \<Rightarrow> real \<Rightarrow> real list \<Rightarrow> nat" where
  "argmax_from i bi b [] = bi"
| "argmax_from i bi b (x # xs) =
     (if b < x then argmax_from (Suc i) i x xs else argmax_from (Suc i) bi b xs)"

fun argmax_list :: "real list \<Rightarrow> nat" where
  "argmax_list [] = 0"
| "argmax_list (x # xs) = argmax_from 1 0 x xs"

definition argmax1 :: "exn \<Rightarrow> tensor \<Rightarrow> exn + int list" where
  "argmax1 err t =
     (if ncols t = 0 then Inl err else Inr (map (\<lambda>r. int (argmax_list r)) (rows t)))"

text \<open>\<open>x[mask]\<close> with a boolean mask: the mask must be as long as \<open>x\<close>.\<close>

definition mask_select :: "'a list \<Rightarrow> bool list \<Rightarrow> exn + 'a list" where
  "mask_select xs m =
     (if length m \<noteq> length xs then Inl IndexError
      else Inr (map fst (filter snd (zip xs m))))"

definition mask_rows :: "tensor \<Rightarrow> bool list \<Rightarrow> exn + tensor" where
  "mask_rows t m =
     (case mask_select (rows t) m of
        Inl e \<Rightarrow> Inl e
      | Inr rs \<Rightarrow> Inr (t\<lparr>rows := rs\<rparr>))"

text \<open>
  \<open>x[ids]\<close> with an index tensor: a negative index counts from the end, an index out of
  range raises.
\<close>

definition py_index :: "nat \<Rightarrow> int \<Rightarrow> exn + nat" where
  "py_index n i =
     (if - int n \<le> i \<and> i < int n then Inr (nat (if i < 0 then i + int n else i))
      else Inl IndexError)"

fun gather :: "'a list \<Rightarrow> int list \<Rightarrow> exn + 'a list" where
  "gather xs [] = Inr []"
| "gather xs (i # ids) =
     (case py_index (length xs) i of
        Inl e \<Rightarrow> Inl e
      | Inr j \<Rightarrow>
         (case gather xs ids of
            Inl e \<Rightarrow> Inl e
          | Inr ys \<Rightarrow> Inr (xs ! j # ys)))"

definition index_rows :: "tensor \<Rightarrow> int list \<Rightarrow> exn + tensor" where
  "index_rows t ids =
     (case gather (rows t) ids of
        Inl e \<Rightarrow> Inl e
      | Inr rs \<Rightarrow> Inr (t\<lparr>rows := rs\<rparr>))"

text \<open>The mean of a boolean tensor read as zeros and ones; \<open>nan\<close> for an empty one.\<close>

definition float_mean :: "bool list \<Rightarrow> pyfloat" where
  "float_mean bs =
     (if bs = [] then NaN else Num (real (length (filter id bs)) / real (length bs)))"

text \<open>\<open>(pred[mask] == labels[mask]).float().mean()\<close>\<close>

definition masked_acc :: "int list \<Rightarrow> int list \<Rightarrow> bool list \<Rightarrow> exn + pyfloat" where
  "masked_acc pred labels m =
     (case mask_select pred m of
        Inl e \<Rightarrow> Inl e
      | Inr p \<Rightarrow>
         (case mask_select labels m of
            Inl e \<Rightarrow> Inl e
          | Inr y \<Rightarrow> Inr (float_mean (map2 (=) p y))))"

text \<open>\<open>sklearn.metrics.accuracy_score(y_true, y_pred)\<close>: the fraction of equal entries.\<close>

definition accuracy_score :: "int list \<Rightarrow> int list \<Rightarrow> exn + pyfloat" where
  "accuracy_score y_true y_pred =
     (if length y_true \<noteq> length y_pred then Inl ValueError
      else Inr (float_mean (map2 (=) y_true y_pred)))"

text \<open>\<open>torch.cat(ts)\<close> along the rows: the list must not be empty and the widths must agree.\<close>

fun cat0 :: "tensor list \<Rightarrow> exn + tensor" where
  "cat0 [] = Inl RuntimeError"
| "cat0 (t # ts) =
     (if list_all (\<lambda>u. ncols u = ncols t) ts
      then Inr \<lparr>ncols = ncols t, rows = concat (map rows (t # ts))\<rparr>
      else Inl RuntimeError)"

text \<open>\<open>xs[0]\<close> on a Python list.\<close>

fun first :: "'a list \<Rightarrow> exn + 'a" where
  "first [] = Inl IndexError"
| "first (x # xs) = Inr x"

fun second :: "'a list \<Rightarrow> exn + 'a" where
  "second (x # y # xs) = Inr y"
| "second _ = Inl IndexError"

definition then_r :: "exn + 'a \<Rightarrow> ('a \<Rightarrow> exn + 'b) \<Rightarrow> exn + 'b" where
  "then_r r f = (case r of Inl e \<Rightarrow> Inl e | Inr v \<Rightarrow> f v)"

section \<open>The library state and the operations taken as parameters\<close>

text \<open>
  Parameters, gradients, optimiser and random generator state live in a library state
  \<open>'w\<close> that the notebooks only hand back to the library. A loss is a tensor with its
  history, of a type \<open>'l\<close> of the library; a saved state dictionary has type \<open>'b\<close>.
  The notebooks also see the files written so far.
\<close>

record ('w, 'b) env =
  torch :: 'w
  files :: "string \<Rightarrow> 'b option"

record ('w, 'l, 'b) lib =
  graph_conv :: "nat \<Rightarrow> graph \<Rightarrow> tensor \<Rightarrow> 'w \<Rightarrow> (exn + tensor) \<times> 'w"
  sage_conv :: "nat \<Rightarrow> graph \<Rightarrow> tensor \<times> tensor \<Rightarrow> 'w \<Rightarrow> (exn + tensor) \<times> 'w"
  cross_entropy :: "tensor \<Rightarrow> int list \<Rightarrow> 'w \<Rightarrow> (exn + 'l) \<times> 'w"
  bce_with_logits :: "real list \<Rightarrow> real list \<Rightarrow> 'w \<Rightarrow> (exn + 'l) \<times> 'w"
  item :: "'l \<Rightarrow> lossval"
  adam :: "'w \<Rightarrow> (exn + unit) \<times> 'w"
  zero_grad :: "'w \<Rightarrow> (exn + unit) \<times> 'w"
  backward :: "'l \<Rightarrow> 'w \<Rightarrow> (exn + unit) \<times> 'w"
  opt_step :: "'w \<Rightarrow> (exn + unit) \<times> 'w"
  new_linear :: "nat \<Rightarrow> nat \<Rightarrow> 'w \<Rightarrow> (exn + unit) \<times> 'w"
  classifier :: "tensor \<Rightarrow> 'w \<Rightarrow> (exn + tensor) \<times> 'w"
  lbfgs :: "'w \<Rightarrow> (exn + unit) \<times> 'w"
  lbfgs_zero_grad :: "'w \<Rightarrow> (exn + unit) \<times> 'w"
  lbfgs_step :: "('w \<Rightarrow> (exn + 'l) \<times> 'w) \<Rightarrow> 'w \<Rightarrow> (exn + unit) \<times> 'w"
  model_eval :: "'w \<Rightarrow> (exn + unit) \<times> 'w"
  model_train :: "'w \<Rightarrow> (exn + unit) \<times> 'w"
  node_batches :: "graph \<Rightarrow> 'w \<Rightarrow> (exn + graph list list) \<times> 'w"
  state_dict :: "'w \<Rightarrow> 'b"
  save_error :: "'w \<Rightarrow> string \<Rightarrow> exn option"

text \<open>
  A call of a library operation from a traced program: the library state moves on, and
  the trace gets the event of the call when it returns, or the exception it raised.
\<close>

definition tcall ::
  "('a \<Rightarrow> event) \<Rightarrow> ('w \<Rightarrow> (exn + 'a) \<times> 'w) \<Rightarrow> (('w, 'b) env \<times> event list, 'a) prog" where
  "tcall ev op = (\<lambda>(s, l). case op (torch s) of
       (Inl e, w') \<Rightarrow> (Inl e, (s\<lparr>torch := w'\<rparr>, l @ [Raised e]))
     | (Inr v, w') \<Rightarrow> (Inr v, (s\<lparr>torch := w'\<rparr>, l @ [ev v])))"

text \<open>A result inside code that the library calls back: nothing is traced there.\<close>

definition lift :: "exn + 'a \<Rightarrow> ('s, 'a) prog" where
  "lift r = (\<lambda>s. (r, s))"

text \<open>
  A call on a graph object that the caller holds but does not keep in its state, such as
  the graphs of a mini-batch.
\<close>

definition with_graph :: "graph \<Rightarrow> (graph \<times> event list, 'a) prog \<Rightarrow> ('x \<times> event list, 'a) prog" where
  "with_graph g m = (\<lambda>(x, l). case m (g, l) of (r, (g', l')) \<Rightarrow> (r, (x, l')))"

text \<open>
  \<open>torch.save(model.state_dict(), path)\<close> writes the state dictionary to the file, unless
  the library raises.
\<close>

definition torch_save :: "('w, 'l, 'b) lib \<Rightarrow> string \<Rightarrow> (('w, 'b) env \<times> event list, unit) prog" where
  "torch_save L path = (\<lambda>(s, l). case save_error L (torch s) path of
       Some e \<Rightarrow> (Inl e, (s, l @ [Raised e]))
     | None \<Rightarrow> (Inr (), (s\<lparr>files := (files s)(path \<mapsto> state_dict L (torch s))\<rparr>, l @ [Save path])))"

section \<open>The models\<close>

text \<open>
  \<open>GCN.forward(g, in_feat)\<close> of the node classification notebook, over its two
  \<open>GraphConv\<close> layers:
  \<^verbatim>\<open>
  h = self.conv1(g, in_feat)
  h = F.relu(h)
  h = self.conv2(g, h)
  return h
  \<close>
\<close>

definition GCN_forward ::
  "(graph \<Rightarrow> tensor \<Rightarrow> ('s, tensor) prog) \<Rightarrow> (graph \<Rightarrow> tensor \<Rightarrow> ('s, tensor) prog)
     \<Rightarrow> graph \<Rightarrow> tensor \<Rightarrow> ('s, tensor) prog" where
  "GCN_forward conv1 conv2 g in_feat =
     bind (conv1 g in_feat) (\<lambda>h.
     bind (ret (relu h)) (\<lambda>h.
     conv2 g h))"

text \<open>
  \<open>Model.forward(mfgs, x)\<close>, the same text in the message passing notebook (over the
  notebook's own \<open>SAGEConv\<close>) and in the link prediction notebook (over \<open>dgl.nn.SAGEConv\<close>):
  \<^verbatim>\<open>
  h_dst = x[:mfgs[0].num_dst_nodes()]
  h = self.conv1(mfgs[0], (x, h_dst))
  h = F.relu(h)
  h_dst = h[:mfgs[1].num_dst_nodes()]
  h = self.conv2(mfgs[1], (h, h_dst))
  return h
  \<close>
\<close>

definition Model_forward ::
  "(graph \<Rightarrow> tensor \<times> tensor \<Rightarrow> ('x \<times> event list, tensor) prog)
     \<Rightarrow> (graph \<Rightarrow> tensor \<times> tensor \<Rightarrow> ('x \<times> event list, tensor) prog)
     \<Rightarrow> graph list \<Rightarrow> tensor \<Rightarrow> ('x \<times> event list, tensor) prog" where
  "Model_forward conv1 conv2 mfgs x =
     bind (of_result (first mfgs)) (\<lambda>g0.
     bind (ret (take_rows (num_dst g0) x)) (\<lambda>h_dst.
     bind (conv1 g0 (x, h_dst)) (\<lambda>h.
     bind (ret (relu h)) (\<lambda>h.
     bind (of_result (second mfgs)) (\<lambda>g1.
     bind (ret (take_rows (num_dst g1) h)) (\<lambda>h_dst.
     conv2 g1 (h, h_dst)))))))"


text \<open>The model of the link prediction notebook: both layers are \<open>dgl.nn.SAGEConv\<close>.\<close>

definition LP_Model ::
  "('w, 'l, 'b) lib \<Rightarrow> graph list \<Rightarrow> tensor \<Rightarrow> (('w, 'b) env \<times> event list, tensor) prog" where
  "LP_Model L =
     Model_forward (\<lambda>g h. tcall (\<lambda>_. ConvCall 0) (sage_conv L 0 g h))
                   (\<lambda>g h. tcall (\<lambda>_. ConvCall 1) (sage_conv L 1 g h))"


definition GCN_model :: "('w, 'l, 'b) lib \<Rightarrow> graph \<Rightarrow> tensor \<Rightarrow> ('w, tensor) prog" where
  "GCN_model L = GCN_forward (graph_conv L 0) (graph_conv L 1)"

section \<open>Node classification: \<open>train(g, model)\<close>\<close>

text \<open>
  \<^verbatim>\<open>
  def train(g, model):
      optimizer = torch.optim.Adam(model.parameters(), lr=0.01)
      best_val_acc = 0
      best_test_acc = 0
      features = g.ndata['feat']
      labels = g.ndata['label']
      train_mask = g.ndata['train_mask']
      val_mask = g.ndata['val_mask']
      test_mask = g.ndata['test_mask']
      for e in range(100):
          logits = model(g, features)
          pred = logits.argmax(1)
          loss = F.cross_entropy(logits[train_mask], labels[train_mask])
          train_acc = (pred[train_mask] == labels[train_mask]).float().mean()
          val_acc = (pred[val_mask] == labels[val_mask]).float().mean()
          test_acc = (pred[test_mask] == labels[test_mask]).float().mean()
          if best_val_acc < val_acc:
              best_val_acc = val_acc
              best_test_acc = test_acc
          optimizer.zero_grad()
          loss.backward()
          optimizer.step()
          if e % 5 == 0:
              print(...)
  \<close>
  The graph of the notebook holds a float matrix under \<open>feat\<close>, an integer vector under
  \<open>label\<close> and boolean masks; the five reads are kept together with their kinds.
\<close>

record cora =
  features :: tensor
  labels :: "int list"
  train_mask :: "bool list"
  val_mask :: "bool list"
  test_mask :: "bool list"

definition read_cora :: "graph \<Rightarrow> exn + cora" where
  "read_cora g =
     then_r (ndata_get ''feat'' g) (\<lambda>f.
     then_r (ndata_get ''label'' g) (\<lambda>y.
     then_r (ndata_get ''train_mask'' g) (\<lambda>tr.
     then_r (ndata_get ''val_mask'' g) (\<lambda>va.
     then_r (ndata_get ''test_mask'' g) (\<lambda>te.
     then_r (as_mat f) (\<lambda>f.
     then_r (as_ints y) (\<lambda>y.
     then_r (as_bools tr) (\<lambda>tr.
     then_r (as_bools va) (\<lambda>va.
     then_r (as_bools te) (\<lambda>te.
     Inr \<lparr>features = f, labels = y, train_mask = tr, val_mask = va, test_mask = te\<rparr>))))))))))"

text \<open>The three accuracies of an epoch, computed from the logits.\<close>

definition epoch_accs :: "cora \<Rightarrow> int list \<Rightarrow> exn + pyfloat \<times> pyfloat \<times> pyfloat" where
  "epoch_accs d pred =
     then_r (masked_acc pred (labels d) (train_mask d)) (\<lambda>train_acc.
     then_r (masked_acc pred (labels d) (val_mask d)) (\<lambda>val_acc.
     then_r (masked_acc pred (labels d) (test_mask d)) (\<lambda>test_acc.
     Inr (train_acc, val_acc, test_acc))))"

text \<open>\<open>if best_val_acc < val_acc: best_val_acc = val_acc; best_test_acc = test_acc\<close>\<close>

definition update_best :: "pyfloat \<times> pyfloat \<Rightarrow> pyfloat \<times> pyfloat \<Rightarrow> pyfloat \<times> pyfloat" where
  "update_best best acc = (if flt_less (fst best) (fst acc) then acc else best)"

definition train_epoch ::
  "('w, 'l, 'b) lib \<Rightarrow> graph \<Rightarrow> (graph \<Rightarrow> tensor \<Rightarrow> ('w, tensor) prog) \<Rightarrow> cora \<Rightarrow> nat
     \<Rightarrow> pyfloat \<times> pyfloat \<Rightarrow> (('w, 'b) env \<times> event list, pyfloat \<times> pyfloat) prog" where
  "train_epoch L g model d e best =
     bind (tcall ModelCall (model g (features d))) (\<lambda>logits.
     bind (of_result (argmax1 IndexError logits)) (\<lambda>pred.
     bind (of_result (mask_rows logits (train_mask d))) (\<lambda>lt.
     bind (of_result (mask_select (labels d) (train_mask d))) (\<lambda>yt.
     bind (tcall (\<lambda>_. CrossEntropy lt yt) (cross_entropy L lt yt)) (\<lambda>loss.
     bind (of_result (epoch_accs d pred)) (\<lambda>(train_acc, val_acc, test_acc).
     bind (ret (update_best best (val_acc, test_acc))) (\<lambda>best'.
     bind (tcall (\<lambda>_. ZeroGrad) (zero_grad L)) (\<lambda>_.
     bind (tcall (\<lambda>_. Backward) (backward L loss)) (\<lambda>_.
     bind (tcall (\<lambda>_. OptStep) (opt_step L)) (\<lambda>_.
     bind (if e mod 5 = 0
           then emit (PrintTrain e (item L loss) val_acc (fst best') test_acc (snd best'))
           else ret ()) (\<lambda>_.
     ret best')))))))))))"

primrec train_epochs ::
  "('w, 'l, 'b) lib \<Rightarrow> graph \<Rightarrow> (graph \<Rightarrow> tensor \<Rightarrow> ('w, tensor) prog) \<Rightarrow> cora \<Rightarrow> nat \<Rightarrow> nat
     \<Rightarrow> pyfloat \<times> pyfloat \<Rightarrow> (('w, 'b) env \<times> event list, pyfloat \<times> pyfloat) prog" where
  "train_epochs L g model d 0 e best = ret best"
| "train_epochs L g model d (Suc n) e best =
     bind (train_epoch L g model d e best) (\<lambda>best'. train_epochs L g model d n (Suc e) best')"

text \<open>
  The loop of \<open>train\<close> with its two local variables as result; \<open>train\<close> itself returns
  nothing.
\<close>

definition train_loop ::
  "('w, 'l, 'b) lib \<Rightarrow> graph \<Rightarrow> (graph \<Rightarrow> tensor \<Rightarrow> ('w, tensor) prog)
     \<Rightarrow> (('w, 'b) env \<times> event list, pyfloat \<times> pyfloat) prog" where
  "train_loop L g model =
     bind (tcall (\<lambda>_. NewOptimizer) (adam L)) (\<lambda>_.
     bind (of_result (read_cora g)) (\<lambda>d.
     train_epochs L g model d 100 0 (Num 0, Num 0)))"


section \<open>Link prediction: \<open>inference\<close>, \<open>evaluate\<close> and the training loop\<close>

text \<open>
  \<^verbatim>\<open>
  def inference(model, graph, node_features):
      with torch.no_grad():
          nodes = torch.arange(graph.number_of_nodes())
          sampler = dgl.dataloading.MultiLayerNeighborSampler([4, 4])
          train_dataloader = dgl.dataloading.NodeDataLoader(...)
          result = []
          for input_nodes, output_nodes, mfgs in train_dataloader:
              inputs = mfgs[0].srcdata['feat']
              result.append(model(mfgs, inputs))
          return torch.cat(result)
  \<close>
  The sampled message flow graphs of the batches are what the library's loader yields.
\<close>

fun inference_loop ::
  "(graph list \<Rightarrow> tensor \<Rightarrow> ('x \<times> event list, tensor) prog) \<Rightarrow> graph list list \<Rightarrow> tensor list
     \<Rightarrow> ('x \<times> event list, tensor list) prog" where
  "inference_loop model [] result = ret result"
| "inference_loop model (mfgs # rest) result =
     bind (of_result (first mfgs)) (\<lambda>g0.
     bind (of_result (then_r (srcdata_get ''feat'' g0) as_mat)) (\<lambda>inputs.
     bind (model mfgs inputs) (\<lambda>out.
     inference_loop model rest (result @ [out]))))"

definition inference ::
  "('w, 'l, 'b) lib \<Rightarrow> (graph list \<Rightarrow> tensor \<Rightarrow> (('w, 'b) env \<times> event list, tensor) prog)
     \<Rightarrow> graph \<Rightarrow> tensor \<Rightarrow> (('w, 'b) env \<times> event list, tensor) prog" where
  "inference L model graph node_features =
     bind (tcall (\<lambda>bs. Batches (length bs)) (node_batches L graph)) (\<lambda>batches.
     bind (inference_loop model batches []) (\<lambda>result.
     of_result (cat0 result)))"

text \<open>
  \<^verbatim>\<open>
  def evaluate(emb, label, train_nids, valid_nids, test_nids):
      classifier = nn.Linear(emb.shape[1], num_classes).to(device)
      opt = torch.optim.LBFGS(classifier.parameters())

      def compute_loss():
          pred = classifier(emb[train_nids].to(device))
          loss = F.cross_entropy(pred, label[train_nids].to(device))
          return loss

      def closure():
          loss = compute_loss()
          opt.zero_grad()
          loss.backward()
          return loss

      prev_loss = float('inf')
      for i in range(1000):
          opt.step(closure)
          with torch.no_grad():
              loss = compute_loss().item()
              if np.abs(loss - prev_loss) < 1e-4:
                  print('Converges at iteration', i)
                  break
              else:
                  prev_loss = loss

      with torch.no_grad():
          pred = classifier(emb.to(device)).cpu()
          label = label
          valid_acc = sklearn.metrics.accuracy_score(
              label[valid_nids].numpy(), pred[valid_nids].numpy().argmax(1))
          test_acc = sklearn.metrics.accuracy_score(
              label[test_nids].numpy(), pred[test_nids].numpy().argmax(1))
      return valid_acc, test_acc
  \<close>
  \<open>compute_loss\<close> is also what the optimiser calls back through \<open>closure\<close>, so both are
  programs over the library state; the call of \<open>compute_loss\<close> from the loop is traced as
  one event, with the value of the loss. \<open>num_classes\<close> is a global of the notebook.
\<close>

definition compute_loss ::
  "('w, 'l, 'b) lib \<Rightarrow> tensor \<Rightarrow> int list \<Rightarrow> int list \<Rightarrow> ('w, 'l) prog" where
  "compute_loss L emb label train_nids =
     bind (lift (index_rows emb train_nids)) (\<lambda>x.
     bind (classifier L x) (\<lambda>pred.
     bind (lift (gather label train_nids)) (\<lambda>y.
     cross_entropy L pred y)))"

definition closure ::
  "('w, 'l, 'b) lib \<Rightarrow> tensor \<Rightarrow> int list \<Rightarrow> int list \<Rightarrow> ('w, 'l) prog" where
  "closure L emb label train_nids =
     bind (compute_loss L emb label train_nids) (\<lambda>loss.
     bind (lbfgs_zero_grad L) (\<lambda>_.
     bind (backward L loss) (\<lambda>_.
     ret loss)))"

primrec fit_loop ::
  "('w, 'l, 'b) lib \<Rightarrow> tensor \<Rightarrow> int list \<Rightarrow> int list \<Rightarrow> nat \<Rightarrow> nat \<Rightarrow> lossval
     \<Rightarrow> (('w, 'b) env \<times> event list, unit) prog" where
  "fit_loop L emb label train_nids 0 i prev_loss = ret ()"
| "fit_loop L emb label train_nids (Suc n) i prev_loss =
     bind (tcall (\<lambda>_. OptStep) (lbfgs_step L (closure L emb label train_nids))) (\<lambda>_.
     bind (tcall (\<lambda>l. LossEval (item L l)) (compute_loss L emb label train_nids)) (\<lambda>l.
     bind (ret (item L l)) (\<lambda>loss.
     if converged loss prev_loss then emit (PrintConverged i)
     else fit_loop L emb label train_nids n (Suc i) loss)))"

text \<open>The first part of \<open>evaluate\<close>: the classifier, its optimiser and the fitting loop.\<close>

definition evaluate_fit ::
  "('w, 'l, 'b) lib \<Rightarrow> nat \<Rightarrow> tensor \<Rightarrow> int list \<Rightarrow> int list
     \<Rightarrow> (('w, 'b) env \<times> event list, unit) prog" where
  "evaluate_fit L num_classes emb label train_nids =
     bind (tcall (\<lambda>_. NewLinear (ncols emb) num_classes) (new_linear L (ncols emb) num_classes)) (\<lambda>_.
     bind (tcall (\<lambda>_. NewOptimizer) (lbfgs L)) (\<lambda>_.
     fit_loop L emb label train_nids 1000 0 NonFinite))"

text \<open>
  \<open>accuracy_score(label[nids].numpy(), pred[nids].numpy().argmax(1))\<close>, the arguments
  evaluated from left to right.
\<close>

definition score_on :: "tensor \<Rightarrow> int list \<Rightarrow> int list \<Rightarrow> exn + pyfloat" where
  "score_on pred label nids =
     then_r (gather label nids) (\<lambda>y.
     then_r (index_rows pred nids) (\<lambda>p.
     then_r (argmax1 ValueError p) (\<lambda>a.
     accuracy_score y a)))"

text \<open>The second part: the accuracies of the fitted classifier.\<close>

definition evaluate_score ::
  "('w, 'l, 'b) lib \<Rightarrow> tensor \<Rightarrow> int list \<Rightarrow> int list \<Rightarrow> int list
     \<Rightarrow> (('w, 'b) env \<times> event list, pyfloat \<times> pyfloat) prog" where
  "evaluate_score L emb label valid_nids test_nids =
     bind (tcall (\<lambda>_. ClassifierCall) (classifier L emb)) (\<lambda>pred.
     bind (of_result (score_on pred label valid_nids)) (\<lambda>valid_acc.
     bind (of_result (score_on pred label test_nids)) (\<lambda>test_acc.
     ret (valid_acc, test_acc))))"

definition evaluate ::
  "('w, 'l, 'b) lib \<Rightarrow> nat \<Rightarrow> tensor \<Rightarrow> int list \<Rightarrow> int list \<Rightarrow> int list \<Rightarrow> int list
     \<Rightarrow> (('w, 'b) env \<times> event list, pyfloat \<times> pyfloat) prog" where
  "evaluate L num_classes emb label train_nids valid_nids test_nids =
     bind (evaluate_fit L num_classes emb label train_nids) (\<lambda>_.
     evaluate_score L emb label valid_nids test_nids)"

text \<open>
  The training loop of the link prediction notebook. A mini-batch is what the edge data
  loader yields; the globals of the notebook are gathered in a record.
  \<^verbatim>\<open>
  best_accuracy = 0
  best_model_path = 'model.pt'
  for epoch in range(1):
      with tqdm.tqdm(train_dataloader) as tq:
          for step, (input_nodes, pos_graph, neg_graph, mfgs) in enumerate(tq):
              inputs = mfgs[0].srcdata['feat']
              outputs = model(mfgs, inputs)
              pos_score = predictor(pos_graph, outputs)
              neg_score = predictor(neg_graph, outputs)
              score = torch.cat([pos_score, neg_score])
              label = torch.cat([torch.ones_like(pos_score), torch.zeros_like(neg_score)])
              loss = F.binary_cross_entropy_with_logits(score, label)
              opt.zero_grad()
              loss.backward()
              opt.step()
              tq.set_postfix({'loss': '%.03f' % loss.item()}, refresh=False)
              if (step + 1) % 500 == 0:
                  model.eval()
                  emb = inference(model, graph, node_features)
                  valid_acc, test_acc = evaluate(emb, node_labels, train_nids, valid_nids, test_nids)
                  print('Epoch {} Validation Accuracy {} Test Accuracy {}'.format(epoch, valid_acc, test_acc))
                  if best_accuracy < valid_acc:
                      best_accuracy = valid_acc
                      torch.save(model.state_dict(), best_model_path)
                  model.train()
  \<close>
\<close>

record batch =
  input_nodes :: "int list"
  pos_graph :: graph
  neg_graph :: graph
  mfgs :: "graph list"

record globals =
  the_graph :: graph
  node_features :: tensor
  node_labels :: "int list"
  num_classes :: nat
  train_nids :: "int list"
  valid_nids :: "int list"
  test_nids :: "int list"

definition best_model_path :: string where
  "best_model_path = ''model.pt''"

text \<open>The block under \<open>if (step + 1) % 500 == 0\<close>.\<close>

definition eval_block ::
  "('w, 'l, 'b) lib \<Rightarrow> globals \<Rightarrow> nat \<Rightarrow> pyfloat \<Rightarrow> (('w, 'b) env \<times> event list, pyfloat) prog" where
  "eval_block L G epoch best_accuracy =
     bind (tcall (\<lambda>_. EvalMode) (model_eval L)) (\<lambda>_.
     bind (inference L (LP_Model L) (the_graph G) (node_features G)) (\<lambda>emb.
     bind (evaluate L (num_classes G) emb (node_labels G) (train_nids G) (valid_nids G) (test_nids G))
       (\<lambda>(valid_acc, test_acc).
     bind (emit (PrintEval epoch valid_acc test_acc)) (\<lambda>_.
     bind (if flt_less best_accuracy valid_acc
           then bind (torch_save L best_model_path) (\<lambda>_. ret valid_acc)
           else ret best_accuracy) (\<lambda>best'.
     bind (tcall (\<lambda>_. TrainMode) (model_train L)) (\<lambda>_.
     ret best'))))))"

definition training_step ::
  "('w, 'l, 'b) lib \<Rightarrow> globals \<Rightarrow> nat \<Rightarrow> nat \<Rightarrow> batch \<Rightarrow> pyfloat
     \<Rightarrow> (('w, 'b) env \<times> event list, pyfloat) prog" where
  "training_step L G epoch step b best_accuracy =
     bind (of_result (first (mfgs b))) (\<lambda>g0.
     bind (of_result (then_r (srcdata_get ''feat'' g0) as_mat)) (\<lambda>inputs.
     bind (LP_Model L (mfgs b) inputs) (\<lambda>outputs.
     bind (with_graph (pos_graph b) (DotPredictor_forward outputs)) (\<lambda>pos_score.
     bind (with_graph (neg_graph b) (DotPredictor_forward outputs)) (\<lambda>neg_score.
     bind (ret (pos_score @ neg_score)) (\<lambda>score.
     bind (ret (map (\<lambda>_. 1) pos_score @ map (\<lambda>_. 0) neg_score)) (\<lambda>label.
     bind (tcall (\<lambda>_. BCELoss score label) (bce_with_logits L score label)) (\<lambda>loss.
     bind (tcall (\<lambda>_. ZeroGrad) (zero_grad L)) (\<lambda>_.
     bind (tcall (\<lambda>_. Backward) (backward L loss)) (\<lambda>_.
     bind (tcall (\<lambda>_. OptStep) (opt_step L)) (\<lambda>_.
     bind (emit (SetPostfix (item L loss))) (\<lambda>_.
     if (step + 1) mod 500 = 0 then eval_block L G epoch best_accuracy
     else ret best_accuracy))))))))))))"

fun loop_steps ::
  "('w, 'l, 'b) lib \<Rightarrow> globals \<Rightarrow> nat \<Rightarrow> nat \<Rightarrow> batch list \<Rightarrow> pyfloat
     \<Rightarrow> (('w, 'b) env \<times> event list, pyfloat) prog" where
  "loop_steps L G epoch step [] best_accuracy = ret best_accuracy"
| "loop_steps L G epoch step (b # bs) best_accuracy =
     bind (training_step L G epoch step b best_accuracy) (\<lambda>best'.
     loop_steps L G epoch (Suc step) bs best')"

text \<open>
  The whole cell, for the batches the loader yields in its single epoch; the result is
  the final value of the global \<open>best_accuracy\<close>.
\<close>

definition training_loop ::
  "('w, 'l, 'b) lib \<Rightarrow> globals \<Rightarrow> batch list \<Rightarrow> (('w, 'b) env \<times> event list, pyfloat) prog" where
  "training_loop L G train_dataloader = loop_steps L G 0 0 train_dataloader (Num 0)"

section \<open>The notions the properties are stated with\<close>

text \<open>
  The in-neighbours of a destination node, one entry per edge, and the arithmetic mean of
  their feature rows (zeros for a node without in-edges), as the specification words it.
\<close>

definition in_neighbours :: "graph \<Rightarrow> nat \<Rightarrow> nat list" where
  "in_neighbours g v = map fst (filter (\<lambda>(u, w). w = v) (edges g))"

definition neighbour_mean :: "graph \<Rightarrow> tensor \<Rightarrow> tensor" where
  "neighbour_mean g h =
     \<lparr>ncols = ncols h,
      rows = map (\<lambda>v. let nb = in_neighbours g v in
                    if nb = [] then replicate (ncols h) 0
                    else map (\<lambda>j. (\<Sum>u\<leftarrow>nb. rows h ! u ! j) / real (length nb)) [0..<ncols h])
                 [0..<num_dst g]\<rparr>"

text \<open>
  Properties of runs. \<open>steps S p\<close>: the objects a run of \<open>p\<close> ends with are related by \<open>S\<close>
  to the ones it started with. \<open>traces T p\<close>: a run of \<open>p\<close> only appends to the trace,
  and \<open>T\<close> holds of the exception it ended with (if any) and of what it appended.
  \<open>logs p evs\<close>: a run of \<open>p\<close> that returns has appended exactly \<open>evs\<close>.
\<close>

definition same_shape :: "graph \<Rightarrow> graph \<Rightarrow> bool" where
  "same_shape g g' = (num_src g' = num_src g \<and> num_dst g' = num_dst g \<and> edges g' = edges g)"

definition steps :: "('x \<Rightarrow> 'x \<Rightarrow> bool) \<Rightarrow> ('x \<times> event list, 'a) prog \<Rightarrow> bool" where
  "steps S p = (\<forall>x l. S x (fst (snd (p (x, l)))))"

definition outcome :: "exn + 'a \<Rightarrow> exn option" where
  "outcome r = (case r of Inl e \<Rightarrow> Some e | Inr v \<Rightarrow> None)"

definition traces :: "(exn option \<Rightarrow> event list \<Rightarrow> bool) \<Rightarrow> ('x \<times> event list, 'a) prog \<Rightarrow> bool" where
  "traces T p = (\<forall>x l. \<exists>evs. snd (snd (p (x, l))) = l @ evs \<and> T (outcome (fst (p (x, l)))) evs)"

definition composable :: "(exn option \<Rightarrow> event list \<Rightarrow> bool) \<Rightarrow> bool" where
  "composable T = (T None [] \<and> (\<forall>evs1 evs2 r. T None evs1 \<and> T r evs2 \<longrightarrow> T r (evs1 @ evs2)))"


text \<open>
  A trace without catching, retrying or translating: no exception is raised in a run that
  returns, and a run that ends with an exception ends with the library raising exactly
  that exception, the only one raised.
\<close>

fun is_raised :: "event \<Rightarrow> bool" where
  "is_raised (Raised e) = True"
| "is_raised _ = False"

definition trace_ok :: "exn option \<Rightarrow> event list \<Rightarrow> bool" where
  "trace_ok r evs = (case r of
       None \<Rightarrow> list_all (\<lambda>ev. \<not> is_raised ev) evs
     | Some e \<Rightarrow> evs \<noteq> [] \<and> last evs = Raised e \<and> list_all (\<lambda>ev. \<not> is_raised ev) (butlast evs))"





















text \<open>
  The best accuracies of \<open>train\<close>. \<open>nums\<close> are the numbers among some accuracies (an
  accuracy over an empty mask is \<open>nan\<close>). \<open>claimed_best\<close> is what the specification
  says \<open>train\<close> keeps, for the validation and test accuracies of the epochs so far: the
  largest validation accuracy, and the test accuracy of the first epoch that attains it.
  \<open>model_outputs\<close> are the logits the model returned in a trace, and \<open>val_test\<close> the
  validation and test accuracy that \<open>train\<close> computes from them.
\<close>

fun nums :: "pyfloat list \<Rightarrow> real list" where
  "nums [] = []"
| "nums (Num x # ps) = x # nums ps"
| "nums (NaN # ps) = nums ps"

definition claimed_best :: "(pyfloat \<times> pyfloat) list \<Rightarrow> pyfloat \<times> pyfloat" where
  "claimed_best vts =
     (let m = Max (set (nums (map fst vts)))
      in (Num m, snd (hd (filter (\<lambda>vt. fst vt = Num m) vts))))"

fun model_outputs :: "event list \<Rightarrow> tensor list" where
  "model_outputs [] = []"
| "model_outputs (ModelCall t # evs) = t # model_outputs evs"
| "model_outputs (ev # evs) = model_outputs evs"

definition val_test :: "cora \<Rightarrow> tensor \<Rightarrow> exn + pyfloat \<times> pyfloat" where
  "val_test d logits =
     then_r (argmax1 IndexError logits) (\<lambda>pred.
     then_r (epoch_accs d pred) (\<lambda>(train_acc, val_acc, test_acc).
     Inr (val_acc, test_acc)))"

text \<open>
  What the link prediction loop reports: the accuracies it prints after an evaluation and
  the checkpoints it saves. \<open>exceeds_all v ys\<close>: the accuracy \<open>v\<close> is a number that
  strictly exceeds every number in \<open>ys\<close>. \<open>report_events epoch prev vas\<close> is the report
  of a loop that prints every pair of accuracies in \<open>vas\<close> and saves the model exactly
  when the validation accuracy exceeds everything in \<open>prev\<close> and every validation accuracy
  before it. A trace is \<open>quiet\<close> when it reports nothing.
\<close>

fun is_report :: "event \<Rightarrow> bool" where
  "is_report (PrintEval epoch v t) = True"
| "is_report (Save path) = True"
| "is_report _ = False"

definition reports :: "event list \<Rightarrow> event list" where
  "reports evs = filter is_report evs"

definition quiet :: "exn option \<Rightarrow> event list \<Rightarrow> bool" where
  "quiet r evs = (reports evs = [])"

definition exceeds_all :: "pyfloat \<Rightarrow> real list \<Rightarrow> bool" where
  "exceeds_all v ys = (case v of NaN \<Rightarrow> False | Num x \<Rightarrow> list_all (\<lambda>y. y < x) ys)"

fun report_events :: "nat \<Rightarrow> real list \<Rightarrow> (pyfloat \<times> pyfloat) list \<Rightarrow> event list" where
  "report_events epoch prev [] = []"
| "report_events epoch prev ((v, t) # rest) =
     PrintEval epoch v t # (if exceeds_all v prev then [Save best_model_path] else [])
       @ report_events epoch (prev @ nums [v]) rest"


section \<open>Concrete inputs\<close>

text \<open>A message flow graph with three source and two destination nodes; node 1 receives nothing.\<close>

definition mfg_ex :: graph where
  "mfg_ex = \<lparr>num_src = 3, num_dst = 2, edges = [(0, 0), (2, 0), (1, 0)],
     nodes = Split Map.empty Map.empty, edata = Map.empty\<rparr>"

definition h_src_ex :: tensor where
  "h_src_ex = \<lparr>ncols = 2, rows = [[1, 2], [3, 4], [5, 9]]\<rparr>"

definition h_dst_ex :: tensor where
  "h_dst_ex = \<lparr>ncols = 2, rows = [[1, 2], [3, 4]]\<rparr>"

text \<open>
  A library for running the notebooks on small inputs: the layers and the classifier
  return their (destination) input, the loss is a function of the number of optimiser
  steps taken so far, which is all of the library state, and nothing raises.
\<close>

definition mock :: "(nat \<Rightarrow> real) \<Rightarrow> graph list list \<Rightarrow> (nat, real, nat) lib" where
  "mock loss_at bs =
     \<lparr>graph_conv = (\<lambda>i g x w. (Inr x, w)),
      sage_conv = (\<lambda>i g h w. (Inr (snd h), w)),
      cross_entropy = (\<lambda>p y w. (Inr (loss_at w), w)),
      bce_with_logits = (\<lambda>p y w. (Inr (loss_at w), w)),
      item = Fin,
      adam = (\<lambda>w. (Inr (), w)),
      zero_grad = (\<lambda>w. (Inr (), w)),
      backward = (\<lambda>l w. (Inr (), w)),
      opt_step = (\<lambda>w. (Inr (), Suc w)),
      new_linear = (\<lambda>i k w. (Inr (), w)),
      classifier = (\<lambda>x w. (Inr x, w)),
      lbfgs = (\<lambda>w. (Inr (), w)),
      lbfgs_zero_grad = (\<lambda>w. (Inr (), w)),
      lbfgs_step = (\<lambda>c w. case c w of (Inl e, w') \<Rightarrow> (Inl e, w') | (Inr l, w') \<Rightarrow> (Inr (), Suc w')),
      model_eval = (\<lambda>w. (Inr (), w)),
      model_train = (\<lambda>w. (Inr (), w)),
      node_batches = (\<lambda>g w. (Inr bs, w)),
      state_dict = (\<lambda>w. w),
      save_error = (\<lambda>w p. None)\<rparr>"


definition env0 :: "(nat, nat) env" where
  "env0 = \<lparr>torch = 0, files = Map.empty\<rparr>"

text \<open>
  Four nodes with two-dimensional features; the argmax of the features predicts the
  classes 0, 1, 1, 0.
\<close>

definition feat_ex :: tensor where
  "feat_ex = \<lparr>ncols = 2, rows = [[1, 0], [0, 1], [0, 1], [1, 0]]\<rparr>"

definition cora_ex :: graph where
  "cora_ex = \<lparr>num_src = 4, num_dst = 4, edges = [(0, 1), (1, 0), (2, 3), (3, 2)],
     nodes = Shared (Map.empty(''feat'' \<mapsto> Mat feat_ex, ''label'' \<mapsto> Ints [0, 0, 1, 1],
        ''train_mask'' \<mapsto> Bools [True, False, False, False],
        ''val_mask'' \<mapsto> Bools [False, True, False, False],
        ''test_mask'' \<mapsto> Bools [False, False, True, True])),
     edata = Map.empty\<rparr>"

definition mfg_feat :: graph where
  "mfg_feat = \<lparr>num_src = 4, num_dst = 4, edges = [(0, 1), (1, 0), (2, 3), (3, 2)],
     nodes = Split (Map.empty(''feat'' \<mapsto> Mat feat_ex)) Map.empty, edata = Map.empty\<rparr>"

definition pair_graph :: graph where
  "pair_graph = \<lparr>num_src = 4, num_dst = 4, edges = [(0, 1), (2, 3)],
     nodes = Shared Map.empty, edata = Map.empty\<rparr>"

text \<open>
  The same library with a node loader that yields one batch, a mini-batch of the edge
  loader, and the globals of the link prediction notebook: the classifier is right on the
  validation node and on one of the two test nodes.
\<close>

definition mock1 :: "(nat, real, nat) lib" where
  "mock1 = mock (\<lambda>w. 0) [[mfg_feat, mfg_feat]]"

definition batch_ex :: batch where
  "batch_ex = \<lparr>input_nodes = [0, 1, 2, 3], pos_graph = pair_graph, neg_graph = pair_graph,
     mfgs = [mfg_feat, mfg_feat]\<rparr>"

definition globals_ex :: globals where
  "globals_ex = \<lparr>the_graph = cora_ex, node_features = feat_ex, node_labels = [0, 1, 0, 0],
     num_classes = 2, train_nids = [0], valid_nids = [1], test_nids = [2, 3]\<rparr>"

text \<open>The events of one step of the training loop on that batch, and of its evaluation block.\<close>

definition step_events :: "event list" where
  "step_events = [ConvCall 0, ConvCall 1, ApplyEdges (u_dot_v ''h'' ''h'' ''score''),
     ApplyEdges (u_dot_v ''h'' ''h'' ''score''), BCELoss [0, 0, 0, 0] [1, 1, 0, 0],
     ZeroGrad, Backward, OptStep, SetPostfix (Fin 0)]"

definition eval_events :: "event list" where
  "eval_events = [EvalMode, Batches 1, ConvCall 0, ConvCall 1, NewLinear 2 2, NewOptimizer,
     OptStep, LossEval (Fin 0), OptStep, LossEval (Fin 0), PrintConverged 1, ClassifierCall,
     PrintEval 0 (Num 1) (Num (1 / 2)), Save ''model.pt'', TrainMode]"





text \<open>What \<open>train\<close> reads from \<open>cora_ex\<close>.\<close>

definition cora_rec :: cora where
  "cora_rec = \<lparr>features = feat_ex, labels = [0, 0, 1, 1],
     train_mask = [True, False, False, False], val_mask = [False, True, False, False],
     test_mask = [False, False, True, True]\<rparr>"


text \<open>The same globals with a validation node that the classifier gets wrong.\<close>

definition globals_zero :: globals where
  "globals_zero = globals_ex\<lparr>valid_nids := [2]\<rparr>"


section \<open>Running programs\<close>

declare update_all.simps [simp del]

declare apply_edges.simps [simp del]

lemma fst_linear: "fst (linear lin x s) = lin x"
  by (cases s; cases "lin x") (simp_all add: linear_def bind_def of_result_def emit_def ret_def)

lemma upt_2: "[0..<2] = [0, 1]"
  by (simp add: upt_rec)

section \<open>Mean aggregation\<close>

lemma sum_rows_nth:
  "list_all (\<lambda>r. length r = c) msgs \<Longrightarrow> sum_rows c msgs = map (\<lambda>j. \<Sum>r\<leftarrow>msgs. r ! j) [0..<c]"
proof (induction msgs)
  case Nil
  show ?case by (simp add: sum_rows_def map_replicate_const)
next
  case (Cons r msgs)
  then have len: "length r = c" and ih: "sum_rows c msgs = map (\<lambda>j. \<Sum>r\<leftarrow>msgs. r ! j) [0..<c]"
    by simp_all
  have "sum_rows c (r # msgs) = map2 (+) r (sum_rows c msgs)"
    by (simp add: sum_rows_def)
  also have "\<dots> = map (\<lambda>j. \<Sum>r\<leftarrow>r # msgs. r ! j) [0..<c]"
    using len by (simp add: ih list_eq_iff_nth_eq)
  finally show ?case .
qed

lemma mailbox_in_neighbours: "mailbox g x v = map (\<lambda>u. rows x ! u) (in_neighbours g v)"
  by (simp add: mailbox_def in_neighbours_def case_prod_unfold comp_def)

lemma in_neighbours_bound:
  "wf_graph g \<Longrightarrow> u \<in> set (in_neighbours g v) \<Longrightarrow> u < num_src g"
  by (auto simp: wf_graph_def in_neighbours_def list_all_iff)

lemma mailbox_widths:
  assumes "wf_graph g" "wf_tensor x" "nrows x = num_src g"
  shows "list_all (\<lambda>r. length r = ncols x) (mailbox g x v)"
proof -
  have "length (rows x ! u) = ncols x" if "u \<in> set (in_neighbours g v)" for u
  proof -
    from that assms have "u < length (rows x)"
      using in_neighbours_bound by (fastforce simp: nrows_def)
    then have "rows x ! u \<in> set (rows x)" by simp
    with assms(2) show ?thesis by (simp add: wf_tensor_def list_all_iff)
  qed
  then show ?thesis by (simp add: mailbox_in_neighbours list_all_iff)
qed

lemma mean_reduce_mailbox:
  assumes "wf_graph g" "wf_tensor x" "nrows x = num_src g"
  shows "mean_reduce (ncols x) (mailbox g x v) =
     (let nb = in_neighbours g v in
        if nb = [] then replicate (ncols x) 0
        else map (\<lambda>j. (\<Sum>u\<leftarrow>nb. rows x ! u ! j) / real (length nb)) [0..<ncols x])"
proof (cases "in_neighbours g v = []")
  case True
  then show ?thesis
    by (simp add: mean_reduce_def mailbox_in_neighbours sum_rows_def map_replicate_const)
next
  case False
  then have "max 1 (length (in_neighbours g v)) = length (in_neighbours g v)"
    by (cases "in_neighbours g v") simp_all
  with False show ?thesis
    using sum_rows_nth [OF mailbox_widths [OF assms, of v]]
    by (simp add: mean_reduce_def mailbox_in_neighbours comp_def Let_def)
qed

lemma update_all_block:
  assumes "nodes g = Split s d" "s uf = Some (Mat x)" "wf_graph g" "wf_tensor x" "nrows x = num_src g"
  shows "update_all (copy_u uf m) (mean m out) g =
     Inr (g\<lparr>nodes := Split s (d(out \<mapsto> Mat (neighbour_mean g x)))\<rparr>)"
proof -
  have "map (\<lambda>v. mean_reduce (ncols x) (mailbox g x v)) [0..<num_dst g] = rows (neighbour_mean g x)"
    using mean_reduce_mailbox [OF assms(3-5)] by (simp add: neighbour_mean_def)
  moreover have "nrows (neighbour_mean g x) = num_dst g" "ncols (neighbour_mean g x) = ncols x"
    by (simp_all add: neighbour_mean_def nrows_def)
  ultimately have "\<lparr>ncols = ncols x, rows = map (\<lambda>v. mean_reduce (ncols x) (mailbox g x v)) [0..<num_dst g]\<rparr>
      = neighbour_mean g x"
    by simp
  then show ?thesis
    using assms(1,2) \<open>nrows (neighbour_mean g x) = num_dst g\<close>
    by (simp add: update_all.simps srcdata_get_def src_frame_def lookup_def dstdata_set_def)
qed

text \<open>
  C2. On a message flow graph \<open>g\<close> with \<open>S\<close> source and \<open>D\<close> destination nodes, for a
  feature pair whose first component has \<open>S\<close> rows and whose second has \<open>D\<close> rows, the
  stochastic \<open>SAGEConv.forward\<close> returns the linear layer applied to \<open>h_dst\<close> with the
  neighbour means beside it: row \<open>v\<close> of \<open>h_N\<close> is the arithmetic mean of \<open>h_src[u]\<close> over
  the edges \<open>u \<rightarrow> v\<close>, and zero when \<open>v\<close> has no in-edge. Whatever the linear layer returns
  or raises is what \<open>forward\<close> returns or raises.
\<close>

theorem SAGEConv_forward_mean:
  assumes "is_block g" "wf_graph g" "wf_tensor h_src"
    and "nrows h_src = num_src g" "nrows h_dst = num_dst g"
  shows "fst (SAGEConv_forward lin (h_src, h_dst) (g, l)) = lin (hcat h_dst (neighbour_mean g h_src))"
proof -
  from assms(1) obtain s d where nodes: "nodes g = Split s d"
    by (auto simp: is_block_def split: node_frames.splits)
  define g1 where "g1 = g\<lparr>nodes := Split (s(''h'' \<mapsto> Mat h_src)) d\<rparr>"
  define g2 where "g2 = g\<lparr>nodes := Split (s(''h'' \<mapsto> Mat h_src)) (d(''h'' \<mapsto> Mat h_dst))\<rparr>"
  define g3 where "g3 = g\<lparr>nodes := Split (s(''h'' \<mapsto> Mat h_src))
      (d(''h'' \<mapsto> Mat h_dst, ''h_N'' \<mapsto> Mat (neighbour_mean g h_src)))\<rparr>"
  have s1: "srcdata_set ''h'' (Mat h_src) g = Inr g1"
    using assms(4) nodes by (simp add: srcdata_set_def g1_def)
  have s2: "dstdata_set ''h'' (Mat h_dst) g1 = Inr g2"
    using assms(5) by (simp add: dstdata_set_def g1_def g2_def)
  have wf2: "wf_graph g2" "nrows h_src = num_src g2"
    using assms(2,4) by (simp_all add: g2_def wf_graph_def is_block_def)
  have nm: "neighbour_mean g2 h_src = neighbour_mean g h_src"
    by (simp add: neighbour_mean_def in_neighbours_def g2_def)
  have s3: "update_all (copy_u ''h'' ''m'') (mean ''m'' ''h_N'') g2 = Inr g3"
    using update_all_block [of g2 "s(''h'' \<mapsto> Mat h_src)" "d(''h'' \<mapsto> Mat h_dst)" "''h''" h_src "''m''" "''h_N''"]
      wf2 assms(3) by (simp add: g2_def g3_def nm [unfolded g2_def])
  have s4: "dstdata_get ''h_N'' g3 = Inr (Mat (neighbour_mean g h_src))"
    by (simp add: dstdata_get_def dst_frame_def lookup_def g3_def)
  have s5: "cat1 h_dst (neighbour_mean g h_src) = Inr (hcat h_dst (neighbour_mean g h_src))"
    using assms(5) by (simp add: cat1_def nrows_def neighbour_mean_def)
  have "SAGEConv_body lin (h_src, h_dst) (g, l) =
      linear lin (hcat h_dst (neighbour_mean g h_src)) (g3, l @ [UpdateAll (copy_u ''h'' ''m'') (mean ''m'' ''h_N'')])"
    by (simp add: SAGEConv_body_def g_update_all_def bind_def gop_def gread_def of_result_def
        emit_def s1 s2 s3 s4 s5)
  then show ?thesis
    by (simp add: SAGEConv_forward_def local_scope_def split_beta fst_linear)
qed

theorem SAGEConv_forward_mean_witness:
  "is_block mfg_ex \<and> wf_graph mfg_ex \<and> wf_tensor h_src_ex
   \<and> nrows h_src_ex = num_src mfg_ex \<and> nrows h_dst_ex = num_dst mfg_ex
   \<and> fst (SAGEConv_forward Inr (h_src_ex, h_dst_ex) (mfg_ex, []))
       = Inr \<lparr>ncols = 4, rows = [[1, 2, 3, 5], [3, 4, 0, 0]]\<rparr>"
proof -
  have pre: "is_block mfg_ex" "wf_graph mfg_ex" "wf_tensor h_src_ex"
    "nrows h_src_ex = num_src mfg_ex" "nrows h_dst_ex = num_dst mfg_ex"
    by (simp_all add: is_block_def wf_graph_def wf_tensor_def nrows_def mfg_ex_def h_src_ex_def h_dst_ex_def)
  have "hcat h_dst_ex (neighbour_mean mfg_ex h_src_ex) = \<lparr>ncols = 4, rows = [[1, 2, 3, 5], [3, 4, 0, 0]]\<rparr>"
    by (simp add: hcat_def neighbour_mean_def in_neighbours_def mfg_ex_def h_src_ex_def h_dst_ex_def
        upt_2 numeral_2_eq_2)
  with pre SAGEConv_forward_mean [OF pre, of Inr "[]"] show ?thesis
    by simp
qed

section \<open>Rules for runs\<close>

lemmas run_defs = bind_def ret_def emit_def of_result_def gop_def gread_def tcall_def with_graph_def
  local_scope_def linear_def g_update_all_def g_apply_edges_def

subsection \<open>What a run does to its objects\<close>

lemma steps_ret: "(\<And>x. S x x) \<Longrightarrow> steps S (ret v)"
  by (simp add: steps_def ret_def)

lemma steps_emit: "(\<And>x. S x x) \<Longrightarrow> steps S (emit ev)"
  by (simp add: steps_def emit_def)

lemma steps_of_result: "(\<And>x. S x x) \<Longrightarrow> steps S (of_result r)"
  by (simp add: steps_def of_result_def split: sum.splits)


lemma steps_bind:
  assumes trans: "\<And>x y z. S x y \<Longrightarrow> S y z \<Longrightarrow> S x z"
    and "steps S m" "\<And>v. steps S (f v)"
  shows "steps S (bind m f)"
proof -
  have "S x (fst (snd (bind m f (x, l))))" for x l
  proof -
    obtain r x' l' where run: "m (x, l) = (r, (x', l'))"
      by (metis prod.exhaust)
    with assms(2) have 1: "S x x'"
      by (metis steps_def fst_conv snd_conv)
    show ?thesis
    proof (cases r)
      case (Inl e)
      with run 1 show ?thesis by (simp add: bind_def)
    next
      case (Inr v)
      from assms(3) [of v] have "S x' (fst (snd (f v (x', l'))))"
        by (simp add: steps_def)
      with run Inr 1 show ?thesis
        by (simp add: bind_def) (metis trans)
    qed
  qed
  then show ?thesis by (simp add: steps_def)
qed

lemma steps_gread: "(\<And>x. S x x) \<Longrightarrow> steps S (gread f)"
  by (simp add: steps_def gread_def of_result_def split: sum.splits)

lemma steps_gop:
  assumes "\<And>x. S x x" "\<And>g g'. f g = Inr g' \<Longrightarrow> S g g'"
  shows "steps S (gop f)"
  using assms by (simp add: steps_def gop_def split: sum.splits)


subsection \<open>What a run appends to the trace\<close>

lemma traces_ret: "composable T \<Longrightarrow> traces T (ret v)"
  by (simp add: traces_def ret_def composable_def outcome_def)

lemma traces_bind:
  assumes "composable T" "traces T m" "\<And>v. traces T (f v)"
  shows "traces T (bind m f)"
proof -
  have "\<exists>evs. snd (snd (bind m f (x, l))) = l @ evs \<and> T (outcome (fst (bind m f (x, l)))) evs" for x l
  proof -
    obtain r x' l' where run: "m (x, l) = (r, (x', l'))"
      by (metis prod.exhaust)
    with assms(2) obtain evs1 where 1: "l' = l @ evs1" "T (outcome r) evs1"
      by (metis traces_def fst_conv snd_conv)
    show ?thesis
    proof (cases r)
      case (Inl e)
      with run 1 show ?thesis by (simp add: bind_def outcome_def)
    next
      case (Inr v)
      from assms(3) [of v] obtain evs2 where
        2: "snd (snd (f v (x', l'))) = l' @ evs2" "T (outcome (fst (f v (x', l')))) evs2"
        by (metis traces_def)
      from 1 Inr have "T None evs1" by (simp add: outcome_def)
      with 2 assms(1) have "T (outcome (fst (f v (x', l')))) (evs1 @ evs2)"
        by (simp add: composable_def)
      with run Inr 1 2 show ?thesis
        by (simp add: bind_def)
    qed
  qed
  then show ?thesis by (simp add: traces_def)
qed

lemma traces_emit: "T None [ev] \<Longrightarrow> traces T (emit ev)"
  by (simp add: traces_def emit_def outcome_def)

lemma traces_of_result:
  assumes "T None []" "\<And>e. T (Some e) [Raised e]"
  shows "traces T (of_result r)"
  using assms by (cases r) (simp_all add: traces_def of_result_def outcome_def)

lemma traces_gread:
  assumes "T None []" "\<And>e. T (Some e) [Raised e]"
  shows "traces T (gread f)"
  using assms by (simp add: traces_def gread_def of_result_def outcome_def split: sum.splits)

lemma traces_gop:
  assumes "T None []" "\<And>e. T (Some e) [Raised e]"
  shows "traces T (gop f)"
  using assms by (simp add: traces_def gop_def outcome_def split: sum.splits)

lemma traces_tcall:
  assumes "\<And>v. T None [ev v]" "\<And>e. T (Some e) [Raised e]"
  shows "traces T (tcall ev op)"
  using assms by (simp add: traces_def tcall_def outcome_def split: sum.splits prod.splits)

lemma traces_with_graph: "traces T m \<Longrightarrow> traces T (with_graph g m)"
  by (simp add: traces_def with_graph_def split: prod.splits) (metis fst_conv snd_conv)

lemma traces_local_scope: "traces T m \<Longrightarrow> traces T (local_scope m)"
  by (simp add: traces_def local_scope_def split: prod.splits) (metis fst_conv snd_conv)

lemma traces_torch_save:
  assumes "T None [Save path]" "\<And>e. T (Some e) [Raised e]"
  shows "traces T (torch_save L path)"
  using assms by (simp add: traces_def torch_save_def outcome_def split: option.splits)

subsection \<open>What a run that returns has appended\<close>







section \<open>Feature dictionaries and \<open>local_scope\<close>\<close>

lemma same_shape_refl: "same_shape g g"
  by (simp add: same_shape_def)

lemma same_shape_trans: "same_shape g g' \<Longrightarrow> same_shape g' g'' \<Longrightarrow> same_shape g g''"
  by (simp add: same_shape_def)

lemmas shape_bind = steps_bind [of same_shape, OF same_shape_trans]

lemma shape_srcdata_set: "srcdata_set k v g = Inr g' \<Longrightarrow> same_shape g g'"
  by (auto simp: srcdata_set_def same_shape_def split: if_splits)

lemma shape_dstdata_set: "dstdata_set k v g = Inr g' \<Longrightarrow> same_shape g g'"
  by (auto simp: dstdata_set_def same_shape_def split: if_splits)

lemma shape_ndata_set: "ndata_set k v g = Inr g' \<Longrightarrow> same_shape g g'"
  by (auto simp: ndata_set_def same_shape_def split: if_splits node_frames.splits)

lemma shape_update_all: "update_all mf rf g = Inr g' \<Longrightarrow> same_shape g g'"
  by (cases mf; cases rf)
    (auto simp: update_all.simps dest: shape_dstdata_set split: if_splits sum.splits tval.splits)

lemma shape_apply_edges: "apply_edges ef g = Inr g' \<Longrightarrow> same_shape g g'"
  by (cases ef)
    (auto simp: apply_edges.simps same_shape_def split: if_splits sum.splits tval.splits)

lemma shape_linear: "steps same_shape (linear lin x)"
  by (simp add: linear_def shape_bind steps_of_result steps_emit steps_ret same_shape_refl)

lemma shape_g_update_all: "steps same_shape (g_update_all mf rf)"
  by (simp add: g_update_all_def shape_bind steps_gop shape_update_all steps_emit same_shape_refl)

lemma shape_g_apply_edges: "steps same_shape (g_apply_edges ef)"
  by (simp add: g_apply_edges_def shape_bind steps_gop shape_apply_edges steps_emit same_shape_refl)

lemma shape_SAGEConv_body: "steps same_shape (SAGEConv_body lin h)"
  by (cases h)
    (simp add: SAGEConv_body_def shape_bind steps_gop shape_srcdata_set shape_dstdata_set
      shape_g_update_all steps_gread steps_of_result shape_linear same_shape_refl)

lemma shape_DotPredictor_body: "steps same_shape (DotPredictor_body h)"
  by (simp add: DotPredictor_body_def shape_bind steps_gop shape_ndata_set
      shape_g_apply_edges steps_gread steps_of_result same_shape_refl)

lemma local_scope_restores:
  assumes "steps same_shape body"
  shows "fst (snd (local_scope body (g, l))) = g"
proof -
  obtain r g' l' where run: "body (g, l) = (r, (g', l'))"
    by (metis prod.exhaust)
  with assms have "same_shape g g'"
    by (metis steps_def fst_conv snd_conv)
  then have "g'\<lparr>nodes := nodes g, edata := edata g\<rparr> = g"
    by (simp add: same_shape_def)
  with run show ?thesis by (simp add: local_scope_def)
qed

text \<open>The body of \<open>DotPredictor.forward\<close> does write: inside the scope the feature is there.\<close>

lemma DotPredictor_body_writes:
  "srcdata_get ''h'' pair_graph = Inl KeyError
   \<and> srcdata_get ''h'' (fst (snd (DotPredictor_body feat_ex (pair_graph, [])))) = Inr (Mat feat_ex)"
  by (simp add: DotPredictor_body_def run_defs srcdata_get_def src_frame_def lookup_def
      pair_graph_def feat_ex_def ndata_set_def nrows_def apply_edges.simps dstdata_get_def
      dst_frame_def edata_get_def col0_def)

text \<open>
  C5. The notebooks' operations leave the structure of a graph alone and touch only its
  feature dictionaries; and whatever \<open>DotPredictor.forward\<close> and the stochastic
  \<open>SAGEConv.forward\<close> write there is written inside \<open>g.local_scope()\<close>: when they are
  left, by return or by exception, the graph, with its node and edge feature
  dictionaries, is what it was before the call.
\<close>

theorem forward_leaves_features:
  "fst (snd (DotPredictor_forward h (g, l))) = g
   \<and> fst (snd (SAGEConv_forward lin hh (g, l))) = g"
  by (simp add: DotPredictor_forward_def SAGEConv_forward_def local_scope_restores
      shape_DotPredictor_body shape_SAGEConv_body)

section \<open>One module for full graphs and for message flow graphs\<close>

text \<open>
  C4. On a homogeneous (full) graph, for a single tensor \<open>h\<close>, \<open>SAGEConvForBoth.forward\<close>
  and the full-graph \<open>SAGEConv.forward\<close> with the same linear layer agree: in the result
  or exception, in the graph they leave and in the library calls they make. The reason
  is that \<open>srcdata\<close> and \<open>ndata\<close> name the same dictionary there.
\<close>

theorem SAGEConvForBoth_agrees_on_full_graph:
  assumes "\<not> is_block g"
  shows "SAGEConvForBoth_forward lin (Single h) (g, l) = SAGEConv_full_forward lin h (g, l)"
proof -
  from assms obtain f where "nodes g = Shared f"
    by (auto simp: is_block_def split: node_frames.splits)
  then have "srcdata_set ''h'' (Mat h) g = ndata_set ''h'' (Mat h) g"
    by (simp add: srcdata_set_def ndata_set_def)
  then have "gop (srcdata_set ''h'' (Mat h)) (g, l) = gop (ndata_set ''h'' (Mat h)) (g, l)"
    by (simp add: gop_def)
  then show ?thesis
    by (simp add: SAGEConvForBoth_forward_def SAGEConv_full_forward_def local_scope_def bind_def)
qed

theorem SAGEConvForBoth_agrees_on_full_graph_witness:
  "\<not> is_block pair_graph
   \<and> SAGEConvForBoth_forward Inr (Single feat_ex) (pair_graph, [])
       = SAGEConv_full_forward Inr feat_ex (pair_graph, [])
   \<and> fst (SAGEConv_full_forward Inr feat_ex (pair_graph, []))
       = Inr \<lparr>ncols = 4, rows = [[1, 0, 0, 0], [0, 1, 1, 0], [0, 1, 0, 0], [1, 0, 0, 1]]\<rparr>"
proof -
  have 1: "\<not> is_block pair_graph"
    by (simp add: is_block_def pair_graph_def)
  have 2: "fst (SAGEConv_full_forward Inr feat_ex (pair_graph, []))
       = Inr \<lparr>ncols = 4, rows = [[1, 0, 0, 0], [0, 1, 1, 0], [0, 1, 0, 0], [1, 0, 0, 1]]\<rparr>"
    by code_simp
  from 1 2 SAGEConvForBoth_agrees_on_full_graph [OF 1, of Inr feat_ex "[]"] show ?thesis
    by simp
qed

section \<open>The modules and their layers\<close>












section \<open>Exceptions of the library pass through\<close>

lemma composable_trace_ok: "composable trace_ok"
  unfolding composable_def
proof (intro conjI allI impI)
  show "trace_ok None []" by (simp add: trace_ok_def)
next
  fix evs1 evs2 r
  assume a: "trace_ok None evs1 \<and> trace_ok r evs2"
  show "trace_ok r (evs1 @ evs2)"
  proof (cases r)
    case None
    with a show ?thesis by (simp add: trace_ok_def)
  next
    case (Some e)
    with a have "evs2 \<noteq> []" by (simp add: trace_ok_def)
    with a Some show ?thesis by (simp add: trace_ok_def butlast_append)
  qed
qed

lemma ok_nil: "trace_ok None []"
  by (simp add: trace_ok_def)

lemma ok_raised: "trace_ok (Some e) [Raised e]"
  by (simp add: trace_ok_def)

lemma ok_event: "\<not> is_raised ev \<Longrightarrow> trace_ok None [ev]"
  by (simp add: trace_ok_def)

lemmas ok_ret = traces_ret [OF composable_trace_ok]
lemmas ok_bind = traces_bind [OF composable_trace_ok]
lemmas ok_of_result = traces_of_result [of trace_ok, OF ok_nil ok_raised]
lemmas ok_gread = traces_gread [of trace_ok, OF ok_nil ok_raised]
lemmas ok_gop = traces_gop [of trace_ok, OF ok_nil ok_raised]

lemma ok_emit: "\<not> is_raised ev \<Longrightarrow> traces trace_ok (emit ev)"
  by (simp add: traces_emit ok_event)

lemma ok_tcall: "(\<And>v. \<not> is_raised (ev v)) \<Longrightarrow> traces trace_ok (tcall ev op)"
  by (simp add: traces_tcall ok_event ok_raised)

lemma ok_torch_save: "traces trace_ok (torch_save L path)"
  by (simp add: traces_torch_save ok_event ok_raised)

lemma traces_case_prod: "(\<And>a b. traces T (f a b)) \<Longrightarrow> traces T (case p of (a, b) \<Rightarrow> f a b)"
  by (cases p) simp

lemma traces_if: "traces T p \<Longrightarrow> traces T q \<Longrightarrow> traces T (if c then p else q)"
  by simp

lemmas ok_intros = ok_bind ok_ret ok_of_result ok_gread ok_gop ok_emit ok_tcall ok_torch_save
  traces_with_graph traces_local_scope traces_case_prod traces_if

lemma ok_linear: "traces trace_ok (linear lin x)"
  unfolding linear_def by (intro ok_intros) simp

lemma ok_g_update_all: "traces trace_ok (g_update_all mf rf)"
  unfolding g_update_all_def by (intro ok_intros) simp


lemma ok_SAGEConv: "traces trace_ok (SAGEConv_forward lin h)"
  unfolding SAGEConv_forward_def SAGEConv_body_def
  by (intro ok_intros ok_linear ok_g_update_all)















section \<open>A run of the link prediction loop\<close>

lemma mock1_ops:
  "bce_with_logits mock1 = (\<lambda>p y w. (Inr 0, w))"
  "zero_grad mock1 = (\<lambda>w. (Inr (), w))"
  "backward mock1 = (\<lambda>l w. (Inr (), w))"
  "opt_step mock1 = (\<lambda>w. (Inr (), Suc w))"
  "item mock1 = Fin"
  "model_eval mock1 = (\<lambda>w. (Inr (), w))"
  "model_train mock1 = (\<lambda>w. (Inr (), w))"
  "node_batches mock1 = (\<lambda>g w. (Inr [[mfg_feat, mfg_feat]], w))"
  "new_linear mock1 = (\<lambda>i k w. (Inr (), w))"
  "lbfgs mock1 = (\<lambda>w. (Inr (), w))"
  "lbfgs_zero_grad mock1 = (\<lambda>w. (Inr (), w))"
  "classifier mock1 = (\<lambda>x w. (Inr x, w))"
  "cross_entropy mock1 = (\<lambda>p y w. (Inr 0, w))"
  "lbfgs_step mock1 = (\<lambda>c w. case c w of (Inl e, w') \<Rightarrow> (Inl e, w') | (Inr l, w') \<Rightarrow> (Inr (), Suc w'))"
  "state_dict mock1 = (\<lambda>w. w)"
  "save_error mock1 = (\<lambda>w p. None)"
  "sage_conv mock1 = (\<lambda>i g h w. (Inr (snd h), w))"
  by (simp_all add: mock1_def mock_def)

lemma LP_Model_mock1:
  "LP_Model mock1 [mfg_feat, mfg_feat] feat_ex (s, l) = (Inr feat_ex, (s, l @ [ConvCall 0, ConvCall 1]))"
  by (simp add: LP_Model_def Model_forward_def run_defs mock1_ops mfg_feat_def feat_ex_def
      take_rows_def relu_def)

lemma DotPredictor_pair:
  "with_graph pair_graph (DotPredictor_forward feat_ex) (s, l)
     = (Inr [0, 0], (s, l @ [ApplyEdges (u_dot_v ''h'' ''h'' ''score'')]))"
  by (simp add: DotPredictor_forward_def DotPredictor_body_def run_defs pair_graph_def feat_ex_def
      ndata_set_def nrows_def apply_edges.simps srcdata_get_def dstdata_get_def src_frame_def
      dst_frame_def lookup_def edata_get_def col0_def dot_def)

lemma batch_ex_fields:
  "first (mfgs batch_ex) = Inr mfg_feat" "mfgs batch_ex = [mfg_feat, mfg_feat]"
  "pos_graph batch_ex = pair_graph" "neg_graph batch_ex = pair_graph"
  "then_r (srcdata_get ''feat'' mfg_feat) as_mat = Inr feat_ex"
  by (simp_all add: batch_ex_def then_r_def srcdata_get_def src_frame_def lookup_def mfg_feat_def)

lemma mock1_step_prefix:
  "training_step mock1 globals_ex 0 step batch_ex best (s, l)
     = (if (step + 1) mod 500 = 0 then eval_block mock1 globals_ex 0 best else ret best)
         (s\<lparr>torch := Suc (torch s)\<rparr>, l @ step_events)"
  by (simp add: training_step_def batch_ex_fields bind_def of_result_def LP_Model_mock1
      DotPredictor_pair ret_def tcall_def emit_def mock1_ops step_events_def)

lemma mock1_plain_steps:
  "step + n < 500 \<Longrightarrow>
   loop_steps mock1 globals_ex 0 step (replicate n batch_ex @ rest) best (s, l)
     = loop_steps mock1 globals_ex 0 (step + n) rest best
         (s\<lparr>torch := torch s + n\<rparr>, l @ concat (replicate n step_events))"
proof (induction n arbitrary: step s l)
  case 0
  show ?case by simp
next
  case (Suc n)
  then have "(step + 1) mod 500 \<noteq> 0" by simp
  with mock1_step_prefix [of step best s l] Suc.IH [of "Suc step"] Suc.prems show ?case
    by (simp add: bind_def ret_def)
qed

lemma mock1_inference:
  "inference mock1 (LP_Model mock1) cora_ex feat_ex (s, l)
     = (Inr feat_ex, (s, l @ [Batches 1, ConvCall 0, ConvCall 1]))"
proof -
  have c: "cat0 [feat_ex] = Inr feat_ex"
    by (simp add: feat_ex_def)
  show ?thesis
    by (simp add: inference_def bind_def tcall_def mock1_ops batch_ex_fields of_result_def
        LP_Model_mock1 ret_def c)
qed

lemma fit_loop_numeral:
  "fit_loop L emb label tr (numeral k) i prev =
     bind (tcall (\<lambda>_. OptStep) (lbfgs_step L (closure L emb label tr))) (\<lambda>_.
     bind (tcall (\<lambda>l. LossEval (item L l)) (compute_loss L emb label tr)) (\<lambda>l.
     bind (ret (item L l)) (\<lambda>loss.
     if converged loss prev then emit (PrintConverged i)
     else fit_loop L emb label tr (pred_numeral k) (Suc i) loss)))"
  by (simp add: numeral_eq_Suc)

lemma mock1_compute_loss:
  "compute_loss mock1 feat_ex [0, 1, 0, 0] [0] w = (Inr 0, w)"
  by (simp add: compute_loss_def bind_def lift_def index_rows_def py_index_def mock1_ops feat_ex_def)

lemma mock1_closure:
  "closure mock1 feat_ex [0, 1, 0, 0] [0] w = (Inr 0, w)"
  by (simp add: closure_def bind_def mock1_compute_loss mock1_ops ret_def)

lemma mock1_fit:
  "fit_loop mock1 feat_ex [0, 1, 0, 0] [0] 1000 0 NonFinite (s, l)
      = (Inr (), (s\<lparr>torch := torch s + 2\<rparr>,
           l @ [OptStep, LossEval (Fin 0), OptStep, LossEval (Fin 0), PrintConverged 1]))"
  by (simp add: fit_loop_numeral bind_def tcall_def mock1_closure mock1_compute_loss mock1_ops
      ret_def emit_def)

lemma mock1_evaluate:
  "evaluate mock1 2 feat_ex [0, 1, 0, 0] [0] [1] [2, 3] (s, l)
     = (Inr (Num 1, Num (1 / 2)), (s\<lparr>torch := torch s + 2\<rparr>,
          l @ [NewLinear 2 2, NewOptimizer, OptStep, LossEval (Fin 0), OptStep, LossEval (Fin 0),
               PrintConverged 1, ClassifierCall]))"
proof -
  note fit = mock1_fit
  have sc: "score_on feat_ex [0, 1, 0, 0] [1] = Inr (Num 1)"
    "score_on feat_ex [0, 1, 0, 0] [2, 3] = Inr (Num (1 / 2))"
    by (simp_all add: score_on_def then_r_def index_rows_def py_index_def argmax1_def
        accuracy_score_def float_mean_def feat_ex_def)
  have nc: "ncols feat_ex = 2" by (simp add: feat_ex_def)
  show ?thesis
    by (simp add: evaluate_def evaluate_fit_def evaluate_score_def bind_def tcall_def mock1_ops
        fit sc nc of_result_def ret_def)
qed

lemma globals_ex_fields:
  "the_graph globals_ex = cora_ex" "node_features globals_ex = feat_ex"
  "node_labels globals_ex = [0, 1, 0, 0]" "num_classes globals_ex = 2"
  "train_nids globals_ex = [0]" "valid_nids globals_ex = [1]" "test_nids globals_ex = [2, 3]"
  by (simp_all add: globals_ex_def)

lemma mock1_eval_block:
  "eval_block mock1 globals_ex 0 (Num 0) (s, l)
     = (Inr (Num 1), (s\<lparr>torch := torch s + 2, files := (files s)(''model.pt'' \<mapsto> torch s + 2)\<rparr>,
          l @ eval_events))"
  by (simp add: eval_block_def globals_ex_fields bind_def tcall_def mock1_ops mock1_inference
      mock1_evaluate emit_def torch_save_def best_model_path_def ret_def eval_events_def)

lemma mock1_run_500:
  "training_loop mock1 globals_ex (replicate 500 batch_ex) (s, l)
     = (Inr (Num 1), (s\<lparr>torch := torch s + 502, files := (files s)(''model.pt'' \<mapsto> torch s + 502)\<rparr>,
          l @ concat (replicate 500 step_events) @ eval_events))"
proof -
  have r: "replicate 500 batch_ex = replicate 499 batch_ex @ [batch_ex]"
    using replicate_add [of 499 1 batch_ex] by simp
  have c: "concat (replicate 500 step_events) = concat (replicate 499 step_events) @ step_events"
    using replicate_add [of 499 1 step_events] by simp
  show ?thesis
    unfolding training_loop_def r c
    by (simp add: mock1_plain_steps mock1_step_prefix mock1_eval_block bind_def ret_def
        add.commute [of 502])
qed





section \<open>Files\<close>





























section \<open>The linear probe of \<open>evaluate\<close>\<close>
























section \<open>The control logic of \<open>evaluate\<close>\<close>






















section \<open>The epochs of \<open>train\<close>\<close>

lemma bind_InrE:
  assumes "bind m f s = (Inr v, s')"
  obtains u s1 where "m s = (Inr u, s1)" "f u s1 = (Inr v, s')"
  using assms by (auto simp: bind_def split: prod.splits sum.splits)

lemma tcall_InrE:
  assumes "tcall ev op sl = (Inr v, sl')"
  obtains w' where "op (torch (fst sl)) = (Inr v, w')"
    "sl' = ((fst sl)\<lparr>torch := w'\<rparr>, snd sl @ [ev v])"
  using assms by (cases sl) (auto simp: tcall_def split: prod.splits sum.splits)

lemma of_result_InrE:
  assumes "of_result r sl = (Inr v, sl')"
  obtains "r = Inr v" "sl' = sl"
  using assms by (cases sl) (auto simp: of_result_def split: sum.splits)

lemma ret_InrE:
  assumes "ret u s = (Inr v, s')"
  obtains "u = v" "s' = s"
  using assms by (auto simp: ret_def)









lemma read_cora_ex: "read_cora cora_ex = Inr cora_rec"
  by (simp add: read_cora_def cora_ex_def cora_rec_def then_r_def ndata_get_def lookup_def)

lemma mock1_graph_ops:
  "graph_conv mock1 = (\<lambda>i g x w. (Inr x, w))" "adam mock1 = (\<lambda>w. (Inr (), w))"
  by (simp_all add: mock1_def mock_def)

lemma mock1_train_epoch:
  "train_epoch mock1 cora_ex (GCN_model mock1) cora_rec e (Num 0, Num 0) (s, l)
     = (Inr (Num 0, Num 0), (s\<lparr>torch := Suc (torch s)\<rparr>,
         l @ [ModelCall feat_ex, CrossEntropy \<lparr>ncols = 2, rows = [[1, 0]]\<rparr> [0],
              ZeroGrad, Backward, OptStep]
           @ (if e mod 5 = 0 then [PrintTrain e (Fin 0) (Num 0) (Num 0) (Num (1 / 2)) (Num 0)]
              else [])))"
  by (simp add: train_epoch_def GCN_model_def GCN_forward_def bind_def ret_def tcall_def
      of_result_def emit_def mock1_ops mock1_graph_ops cora_rec_def argmax1_def mask_rows_def mask_select_def
      epoch_accs_def then_r_def masked_acc_def float_mean_def update_best_def feat_ex_def relu_def)

lemma mock1_train_epochs:
  "fst (train_epochs mock1 cora_ex (GCN_model mock1) cora_rec n e (Num 0, Num 0) (s, l))
     = Inr (Num 0, Num 0)"
  by (induction n arbitrary: e s l) (simp_all add: ret_def bind_def mock1_train_epoch)

lemma mock1_train_loop:
  "fst (train_loop mock1 cora_ex (GCN_model mock1) (env0, [])) = Inr (Num 0, Num 0)"
  by (simp add: train_loop_def bind_def tcall_def mock1_graph_ops of_result_def read_cora_ex
      mock1_train_epochs)





section \<open>The best accuracies\<close>

lemma set_nums: "set (nums ps) = {x. Num x \<in> set ps}"
  by (induction ps rule: nums.induct) auto

lemma nums_append: "nums (ps @ qs) = nums ps @ nums qs"
  by (induction ps rule: nums.induct) simp_all

lemma claimed_best_snoc:
  assumes ne: "nums (map fst xs) \<noteq> []"
  shows "update_best (claimed_best xs) vt = claimed_best (xs @ [vt])"
proof -
  define m where "m = Max (set (nums (map fst xs)))"
  have fin: "finite (set (nums (map fst xs)))" by simp
  from ne have nes: "set (nums (map fst xs)) \<noteq> {}" by simp
  have m_in: "m \<in> set (nums (map fst xs))"
    unfolding m_def using fin nes by (rule Max_in)
  then have "Num m \<in> fst ` set xs"
    by (simp add: set_nums)
  then have hit: "filter (\<lambda>p. fst p = Num m) xs \<noteq> []"
    by (fastforce simp: filter_empty_conv)
  have le: "y \<le> m" if "Num y \<in> fst ` set xs" for y
  proof -
    from that have "y \<in> set (nums (map fst xs))" by (simp add: set_nums)
    then show ?thesis unfolding m_def by simp
  qed
  have cb: "claimed_best xs = (Num m, snd (hd (filter (\<lambda>p. fst p = Num m) xs)))"
    by (simp add: claimed_best_def m_def Let_def)
  obtain v t where vt: "vt = (v, t)" by (cases vt)
  show ?thesis
  proof (cases v)
    case NaN
    with vt have "nums (map fst (xs @ [vt])) = nums (map fst xs)"
      by (simp add: nums_append)
    with NaN vt hit cb show ?thesis
      by (simp add: claimed_best_def update_best_def Let_def m_def)
  next
    case (Num y)
    have mx: "Max (set (nums (map fst (xs @ [vt])))) = max y m"
      using Num vt fin nes by (simp add: nums_append m_def)
    show ?thesis
    proof (cases "m < y")
      case True
      have "filter (\<lambda>p. fst p = Num y) xs = []"
      proof (rule ccontr)
        assume "filter (\<lambda>p. fst p = Num y) xs \<noteq> []"
        then have "Num y \<in> fst ` set xs"
          by (force simp: filter_empty_conv)
        from le [OF this] True show False by simp
      qed
      with True Num vt cb mx show ?thesis
        by (simp add: claimed_best_def update_best_def Let_def max_def)
    next
      case False
      then have "max y m = m" by simp
      with False Num vt cb mx hit show ?thesis
        by (simp add: claimed_best_def update_best_def Let_def)
    qed
  qed
qed

lemma foldl_update_best:
  "nums (map fst xs) \<noteq> [] \<Longrightarrow> foldl update_best (claimed_best xs) vts = claimed_best (xs @ vts)"
proof (induction vts arbitrary: xs)
  case Nil
  show ?case by simp
next
  case (Cons vt vts)
  from Cons.prems have "nums (map fst (xs @ [vt])) \<noteq> []"
    by (simp add: nums_append)
  from Cons.IH [OF this] Cons.prems show ?case
    by (simp add: claimed_best_snoc)
qed

lemma claimed_best_start: "claimed_best [(Num 0, Num 0)] = (Num 0, Num 0)"
  by (simp add: claimed_best_def)

lemma model_outputs_append: "model_outputs (xs @ ys) = model_outputs xs @ model_outputs ys"
  by (induction xs rule: model_outputs.induct) simp_all

lemma train_epoch_best:
  assumes "train_epoch L g model d e best (s, l) = (Inr best', (s', l'))"
  shows "\<exists>logits vt rest. l' = l @ ModelCall logits # rest \<and> model_outputs rest = []
     \<and> val_test d logits = Inr vt \<and> best' = update_best best vt"
  using assms unfolding train_epoch_def
  apply (elim bind_InrE tcall_InrE of_result_InrE ret_InrE)
  apply (clarsimp split: prod.splits)
  apply (elim bind_InrE tcall_InrE of_result_InrE ret_InrE)
  apply (auto simp: emit_def ret_def val_test_def then_r_def split: if_splits)
  done

lemma train_epochs_best:
  "train_epochs L g model d n e best (s, l) = (Inr best', (s', l')) \<Longrightarrow>
   \<exists>vts evs. l' = l @ evs \<and> map (val_test d) (model_outputs evs) = map Inr vts
      \<and> length vts = n \<and> best' = foldl update_best best vts"
proof (induction n arbitrary: e best s l)
  case 0
  then show ?case by (simp add: ret_def)
next
  case (Suc n)
  from Suc.prems obtain b1 s1 l1 where
    a: "train_epoch L g model d e best (s, l) = (Inr b1, (s1, l1))"
    and b: "train_epochs L g model d n (Suc e) b1 (s1, l1) = (Inr best', (s', l'))"
    by (auto elim!: bind_InrE)
  from train_epoch_best [OF a] obtain logits vt rest where
    1: "l1 = l @ ModelCall logits # rest" "model_outputs rest = []"
      "val_test d logits = Inr vt" "b1 = update_best best vt"
    by blast
  from Suc.IH [OF b] obtain vts evs where
    2: "l' = l1 @ evs" "map (val_test d) (model_outputs evs) = map Inr vts"
      "length vts = n" "best' = foldl update_best b1 vts"
    by blast
  have "l' = l @ (ModelCall logits # rest @ evs)"
    using 1(1) 2(1) by simp
  moreover have "map (val_test d) (model_outputs (ModelCall logits # rest @ evs)) = map Inr (vt # vts)"
    using 1(2,3) 2(2) by (simp add: model_outputs_append)
  moreover have "length (vt # vts) = Suc n"
    using 2(3) by simp
  moreover have "best' = foldl update_best best (vt # vts)"
    using 1(4) 2(4) by simp
  ultimately show ?case by blast
qed

lemma train_epochs_claimed_best:
  assumes "train_epochs L g model d n e (Num 0, Num 0) (s, l) = (Inr best, (s', l'))"
  shows "\<exists>vts. map (val_test d) (model_outputs (drop (length l) l')) = map Inr vts
     \<and> length vts = n \<and> best = claimed_best ((Num 0, Num 0) # vts)"
proof -
  from train_epochs_best [OF assms] obtain vts evs where
    1: "l' = l @ evs" "map (val_test d) (model_outputs evs) = map Inr vts"
      "length vts = n" "best = foldl update_best (Num 0, Num 0) vts"
    by blast
  have "foldl update_best (claimed_best [(Num 0, Num 0)]) vts = claimed_best ([(Num 0, Num 0)] @ vts)"
    by (rule foldl_update_best) simp
  with 1(4) have "best = claimed_best ((Num 0, Num 0) # vts)"
    by (simp add: claimed_best_start)
  with 1(1,2,3) show ?thesis by auto
qed

lemma reports_append: "reports (xs @ ys) = reports xs @ reports ys"
  by (simp add: reports_def)

lemma composable_quiet: "composable quiet"
  by (simp add: composable_def quiet_def reports_append reports_def)

lemma q_nil: "quiet None []"
  by (simp add: quiet_def reports_def)

lemma q_raised: "quiet (Some e) [Raised e]"
  by (simp add: quiet_def reports_def)

lemma q_event: "\<not> is_report ev \<Longrightarrow> quiet None [ev]"
  by (simp add: quiet_def reports_def)

lemmas q_ret = traces_ret [OF composable_quiet]
lemmas q_bind = traces_bind [OF composable_quiet]
lemmas q_of_result = traces_of_result [of quiet, OF q_nil q_raised]
lemmas q_gread = traces_gread [of quiet, OF q_nil q_raised]
lemmas q_gop = traces_gop [of quiet, OF q_nil q_raised]

lemma q_emit: "\<not> is_report ev \<Longrightarrow> traces quiet (emit ev)"
  by (simp add: traces_emit q_event)

lemma q_tcall: "(\<And>v. \<not> is_report (ev v)) \<Longrightarrow> traces quiet (tcall ev op)"
  by (simp add: traces_tcall q_event q_raised)

lemmas q_intros = q_bind q_ret q_of_result q_gread q_gop q_emit q_tcall
  traces_with_graph traces_local_scope traces_case_prod traces_if

lemma q_DotPredictor: "traces quiet (DotPredictor_forward h)"
  unfolding DotPredictor_forward_def DotPredictor_body_def g_apply_edges_def
  by (intro q_intros) simp

lemma q_LP_Model: "traces quiet (LP_Model L ms x)"
  unfolding LP_Model_def Model_forward_def by (intro q_intros) simp_all

lemma q_inference_loop: "traces quiet (inference_loop (LP_Model L) bs acc)"
proof (induction bs arbitrary: acc)
  case Nil
  show ?case by (simp add: q_ret)
next
  case (Cons a bs)
  show ?case
    unfolding inference_loop.simps by (intro q_intros q_LP_Model Cons)
qed

lemma q_inference: "traces quiet (inference L (LP_Model L) g nf)"
  unfolding inference_def by (intro q_intros q_inference_loop) simp_all

lemma q_fit_loop: "traces quiet (fit_loop L emb label tr n i prev)"
proof (induction n arbitrary: i prev)
  case 0
  show ?case by (simp add: q_ret)
next
  case (Suc n)
  show ?case
    unfolding fit_loop.simps by (intro q_intros Suc) simp_all
qed

lemma q_evaluate: "traces quiet (evaluate L nc emb label tr va te)"
  unfolding evaluate_def evaluate_fit_def evaluate_score_def
  by (intro q_intros q_fit_loop) simp_all

lemma quiet_run:
  assumes "traces quiet m" "m (s, l) = (r, (s', l'))"
  shows "\<exists>evs. l' = l @ evs \<and> reports evs = []"
  using assms unfolding traces_def quiet_def by (metis snd_conv)

lemma bind_assoc: "bind (bind m f) k = bind m (\<lambda>x. bind (f x) k)"
  by (auto simp: bind_def fun_eq_iff split: prod.splits sum.splits)

lemma bind_ret: "bind (ret v) f = f v"
  by (simp add: bind_def ret_def fun_eq_iff)

lemma eval_block_success:
  assumes "eval_block L G epoch best (s, l) = (Inr acc, (s', l'))"
  shows "\<exists>v t evs. l' = l @ evs
     \<and> reports evs = PrintEval epoch v t # (if flt_less best v then [Save best_model_path] else [])
     \<and> acc = (if flt_less best v then v else best)"
proof -
  from assms obtain s1 l1 emb s2 l2 v t s3 l3 where
    a: "tcall (\<lambda>_. EvalMode) (model_eval L) (s, l) = (Inr (), (s1, l1))"
    and b: "inference L (LP_Model L) (the_graph G) (node_features G) (s1, l1) = (Inr emb, (s2, l2))"
    and c: "evaluate L (num_classes G) emb (node_labels G) (train_nids G) (valid_nids G) (test_nids G)
        (s2, l2) = (Inr (v, t), (s3, l3))"
    and d: "bind (emit (PrintEval epoch v t)) (\<lambda>_.
        bind (if flt_less best v
              then bind (torch_save L best_model_path) (\<lambda>_. ret v)
              else ret best) (\<lambda>best'.
        bind (tcall (\<lambda>_. TrainMode) (model_train L)) (\<lambda>_.
        ret best'))) (s3, l3) = (Inr acc, (s', l'))"
    unfolding eval_block_def
    by (elim bind_InrE) (auto split: prod.splits)
  from quiet_run [OF q_tcall a] obtain e1 where 1: "l1 = l @ e1" "reports e1 = []"
    by auto
  from quiet_run [OF q_inference b] obtain e2 where 2: "l2 = l1 @ e2" "reports e2 = []"
    by auto
  from quiet_run [OF q_evaluate c] obtain e3 where 3: "l3 = l2 @ e3" "reports e3 = []"
    by auto
  from d have "\<exists>e4. l' = l3 @ e4
     \<and> reports e4 = PrintEval epoch v t # (if flt_less best v then [Save best_model_path] else [])
     \<and> acc = (if flt_less best v then v else best)"
    by (auto simp: bind_def emit_def torch_save_def tcall_def ret_def reports_def
        split: if_splits option.splits prod.splits sum.splits)
  then obtain e4 where 4: "l' = l3 @ e4"
    "reports e4 = PrintEval epoch v t # (if flt_less best v then [Save best_model_path] else [])"
    "acc = (if flt_less best v then v else best)"
    by blast
  have "l' = l @ (e1 @ e2 @ e3 @ e4)"
    using 1(1) 2(1) 3(1) 4(1) by simp
  moreover have "reports (e1 @ e2 @ e3 @ e4)
      = PrintEval epoch v t # (if flt_less best v then [Save best_model_path] else [])"
    using 1(2) 2(2) 3(2) 4(2) by (simp add: reports_append)
  ultimately show ?thesis using 4(3) by blast
qed

lemma training_step_success:
  assumes "training_step L G epoch step b best (s, l) = (Inr acc, (s', l'))"
  shows "\<exists>s1 evs. reports evs = []
     \<and> (if (step + 1) mod 500 = 0 then eval_block L G epoch best else ret best) (s1, l @ evs)
         = (Inr acc, (s', l'))"
proof -
  define pre where "pre =
     bind (of_result (first (mfgs b))) (\<lambda>g0.
     bind (of_result (then_r (srcdata_get ''feat'' g0) as_mat)) (\<lambda>inputs.
     bind (LP_Model L (mfgs b) inputs) (\<lambda>outputs.
     bind (with_graph (pos_graph b) (DotPredictor_forward outputs)) (\<lambda>pos_score.
     bind (with_graph (neg_graph b) (DotPredictor_forward outputs)) (\<lambda>neg_score.
     bind (ret (pos_score @ neg_score)) (\<lambda>score.
     bind (ret (map (\<lambda>_. 1) pos_score @ map (\<lambda>_. 0) neg_score)) (\<lambda>label.
     bind (tcall (\<lambda>_. BCELoss score label) (bce_with_logits L score label)) (\<lambda>loss.
     bind (tcall (\<lambda>_. ZeroGrad) (zero_grad L)) (\<lambda>_.
     bind (tcall (\<lambda>_. Backward) (backward L loss)) (\<lambda>_.
     bind (tcall (\<lambda>_. OptStep) (opt_step L)) (\<lambda>_.
     emit (SetPostfix (item L loss)))))))))))))"
  have q: "traces quiet pre"
    unfolding pre_def by (intro q_intros q_LP_Model q_DotPredictor) simp_all
  have split: "training_step L G epoch step b best =
      bind pre (\<lambda>_. if (step + 1) mod 500 = 0 then eval_block L G epoch best else ret best)"
    unfolding training_step_def pre_def by (simp only: bind_assoc)
  from assms [unfolded split] obtain u s1 l1 where
    a: "pre (s, l) = (Inr u, (s1, l1))"
    and b: "(if (step + 1) mod 500 = 0 then eval_block L G epoch best else ret best) (s1, l1)
        = (Inr acc, (s', l'))"
    by (elim bind_InrE) (cases rule: prod.exhaust, auto)
  from quiet_run [OF q a] obtain evs where "l1 = l @ evs" "reports evs = []"
    by auto
  with b show ?thesis by blast
qed

lemma exceeds_all_Max:
  "prev \<noteq> [] \<Longrightarrow> flt_less (Num (Max (set prev))) v = exceeds_all v prev"
  by (cases v) (simp_all add: exceeds_all_def list_all_iff)

lemma best_after:
  assumes "prev \<noteq> []"
  shows "(if flt_less (Num (Max (set prev))) v then v else Num (Max (set prev)))
     = Num (Max (set (prev @ nums [v])))"
proof (cases v)
  case NaN
  then show ?thesis by simp
next
  case (Num y)
  define M where "M = Max (set prev)"
  have mx: "Max (set (prev @ nums [v])) = max y M"
    using assms Num by (simp add: M_def)
  have "(if flt_less (Num M) v then v else Num M) = Num (max y M)"
    using Num by (simp add: max_def)
  then show ?thesis
    unfolding mx unfolding M_def .
qed

lemma nums_Cons: "nums (v # ps) = nums [v] @ nums ps"
  by (cases v) simp_all

lemma evals_count_eval:
  assumes "Suc step mod 500 = 0" "k = (Suc step + n) div 500 - Suc step div 500"
  shows "Suc k = (step + Suc n) div 500 - step div 500"
proof -
  define A where "A = (Suc step + n) div 500"
  define K where "K = step div 500"
  from assms(1) have 1: "Suc step div 500 = Suc K"
    by (simp add: div_Suc K_def)
  have "Suc step div 500 \<le> A"
    unfolding A_def by (rule div_le_mono) simp
  with 1 have 2: "Suc K \<le> A" by simp
  from assms(2) 1 have 3: "k = A - Suc K"
    by (simp add: A_def)
  have 4: "(step + Suc n) div 500 = A"
    by (simp add: A_def)
  from 2 3 have "Suc k = A - K" by arith
  then show ?thesis
    unfolding 4 K_def .
qed

lemma evals_count_plain:
  assumes "Suc step mod 500 \<noteq> 0" "k = (Suc step + n) div 500 - Suc step div 500"
  shows "k = (step + Suc n) div 500 - step div 500"
proof -
  from assms(1) have "Suc step div 500 = step div 500"
    by (simp add: div_Suc)
  with assms(2) show ?thesis by simp
qed

lemma loop_steps_success:
  "loop_steps L G epoch step bs (Num (Max (set prev))) (s, l) = (Inr acc, (s', l')) \<Longrightarrow>
   prev \<noteq> [] \<Longrightarrow>
   \<exists>vas evs. l' = l @ evs \<and> reports evs = report_events epoch prev vas
     \<and> acc = Num (Max (set (prev @ nums (map fst vas))))
     \<and> length vas = (step + length bs) div 500 - step div 500"
proof (induction bs arbitrary: step prev s l)
  case Nil
  then have "l' = l @ []" "reports [] = report_events epoch prev []"
    "acc = Num (Max (set (prev @ nums (map fst []))))"
    "length ([] :: (pyfloat \<times> pyfloat) list) = (step + length ([] :: batch list)) div 500 - step div 500"
    by (simp_all add: ret_def reports_def)
  then show ?case by blast
next
  case (Cons b bs)
  from Cons.prems(1) obtain a1 s1 l1 where
    st: "training_step L G epoch step b (Num (Max (set prev))) (s, l) = (Inr a1, (s1, l1))"
    and rest: "loop_steps L G epoch (Suc step) bs a1 (s1, l1) = (Inr acc, (s', l'))"
    by (auto elim!: bind_InrE)
  from training_step_success [OF st] obtain s0 evs0 where
    0: "reports evs0 = []"
      "(if (step + 1) mod 500 = 0 then eval_block L G epoch (Num (Max (set prev)))
        else ret (Num (Max (set prev)))) (s0, l @ evs0) = (Inr a1, (s1, l1))"
    by blast
  show ?case
  proof (cases "Suc step mod 500 = 0")
    case True
    with 0(2) have "eval_block L G epoch (Num (Max (set prev))) (s0, l @ evs0) = (Inr a1, (s1, l1))"
      by simp
    from eval_block_success [OF this] obtain v t evs1 where
      1: "l1 = (l @ evs0) @ evs1"
        "reports evs1 = PrintEval epoch v t
           # (if flt_less (Num (Max (set prev))) v then [Save best_model_path] else [])"
        "a1 = (if flt_less (Num (Max (set prev))) v then v else Num (Max (set prev)))"
      by blast
    have a1: "a1 = Num (Max (set (prev @ nums [v])))"
      using 1(3) best_after [OF Cons.prems(2), of v] by (rule trans)
    from Cons.prems(2) have ne: "prev @ nums [v] \<noteq> []" by simp
    from Cons.IH [OF rest [unfolded a1] ne] obtain vas evs2 where
      2: "l' = l1 @ evs2" "reports evs2 = report_events epoch (prev @ nums [v]) vas"
        "acc = Num (Max (set ((prev @ nums [v]) @ nums (map fst vas))))"
        "length vas = (Suc step + length bs) div 500 - Suc step div 500"
      by blast
    have "l' = l @ (evs0 @ evs1 @ evs2)"
      using 1(1) 2(1) by simp
    moreover have "reports (evs0 @ evs1 @ evs2) = report_events epoch prev ((v, t) # vas)"
      using 0(1) 1(2) 2(2) Cons.prems(2) by (simp add: reports_append exceeds_all_Max)
    moreover have "acc = Num (Max (set (prev @ nums (map fst ((v, t) # vas)))))"
      using 2(3) nums_Cons [of v "map fst vas"] by simp
    moreover have "length ((v, t) # vas) = (step + length (b # bs)) div 500 - step div 500"
      using evals_count_eval [OF True 2(4)] by simp
    ultimately show ?thesis by blast
  next
    case False
    with 0(2) have a1: "a1 = Num (Max (set prev))" and l1: "l1 = l @ evs0"
      by (simp_all add: ret_def)
    from Cons.IH [OF rest [unfolded a1] Cons.prems(2)] obtain vas evs2 where
      2: "l' = l1 @ evs2" "reports evs2 = report_events epoch prev vas"
        "acc = Num (Max (set (prev @ nums (map fst vas))))"
        "length vas = (Suc step + length bs) div 500 - Suc step div 500"
      by blast
    have "l' = l @ (evs0 @ evs2)"
      using l1 2(1) by simp
    moreover have "reports (evs0 @ evs2) = report_events epoch prev vas"
      using 0(1) 2(2) by (simp add: reports_append)
    moreover have "length vas = (step + length (b # bs)) div 500 - step div 500"
      using evals_count_plain [OF False 2(4)] by simp
    ultimately show ?thesis using 2(3) by blast
  qed
qed

lemma training_loop_reports:
  assumes "training_loop L G bs (s, l) = (Inr acc, (s', l'))"
  shows "\<exists>vas. reports (drop (length l) l') = report_events 0 [0] vas
     \<and> length vas = length bs div 500
     \<and> acc = Num (Max (set (0 # nums (map fst vas))))"
proof -
  have m: "Num 0 = Num (Max (set [0 :: real]))" by simp
  from assms have "loop_steps L G 0 0 bs (Num (Max (set [0 :: real]))) (s, l) = (Inr acc, (s', l'))"
    unfolding training_loop_def by (simp only: m [symmetric])
  from loop_steps_success [OF this] obtain vas evs where
    1: "l' = l @ evs" "reports evs = report_events 0 [0] vas"
      "acc = Num (Max (set ([0] @ nums (map fst vas))))"
      "length vas = (0 + length bs) div 500 - 0 div 500"
    by blast
  from 1(1) have "drop (length l) l' = evs" by simp
  with 1(2,3,4) show ?thesis by (intro exI [of _ vas]) simp
qed

lemma training_step_grows:
  assumes "training_step L G epoch step b (Num x) (s, l) = (Inr acc, (s', l'))"
  shows "\<exists>y. acc = Num y \<and> x \<le> y"
proof -
  from training_step_success [OF assms] obtain s0 evs0 where
    0: "(if (step + 1) mod 500 = 0 then eval_block L G epoch (Num x)
        else ret (Num x)) (s0, l @ evs0) = (Inr acc, (s', l'))"
    by blast
  show ?thesis
  proof (cases "Suc step mod 500 = 0")
    case True
    with 0 have "eval_block L G epoch (Num x) (s0, l @ evs0) = (Inr acc, (s', l'))"
      by simp
    from eval_block_success [OF this] obtain v where
      "acc = (if flt_less (Num x) v then v else Num x)"
      by blast
    then show ?thesis by (cases v) (auto split: if_splits)
  next
    case False
    with 0 show ?thesis by (auto simp: ret_def)
  qed
qed

lemma mock1_train_outputs:
  "model_outputs (snd (snd (train_epochs mock1 cora_ex (GCN_model mock1) cora_rec n e
       (Num 0, Num 0) (s, l))))
     = model_outputs l @ replicate n feat_ex"
proof (induction n arbitrary: e s l)
  case 0
  show ?case by (simp add: ret_def)
next
  case (Suc n)
  show ?case
    by (simp add: bind_def mock1_train_epoch Suc model_outputs_append replicate_app_Cons_same)
qed

lemma val_test_ex: "val_test cora_rec feat_ex = Inr (Num 0, Num (1 / 2))"
  by (simp add: val_test_def cora_rec_def feat_ex_def then_r_def argmax1_def epoch_accs_def
      masked_acc_def mask_select_def float_mean_def)

lemma nums_replicate: "nums (replicate n (Num a)) = replicate n a"
  by (induction n) simp_all

lemma claimed_best_replicate:
  assumes "0 < n"
  shows "claimed_best (replicate n (Num a, t)) = (Num a, t)"
proof -
  from assms have 1: "Max (set (nums (map fst (replicate n (Num a, t))))) = a"
    by (simp add: nums_replicate)
  from assms have 2: "hd (replicate n (Num a, t)) = (Num a, t)"
    by (simp add: hd_replicate)
  show ?thesis
    unfolding claimed_best_def 1 Let_def by (simp add: 2)
qed

lemma mock1_train_loop_outputs:
  "model_outputs (snd (snd (train_loop mock1 cora_ex (GCN_model mock1) (env0, []))))
     = replicate 100 feat_ex"
  by (simp add: train_loop_def bind_def tcall_def mock1_graph_ops of_result_def read_cora_ex
      mock1_train_outputs)


lemma reports_one_step: "reports step_events = []"
  by (simp add: reports_def step_events_def)

lemma reports_step_events: "reports (concat (replicate n step_events)) = []"
  by (induction n) (simp_all add: reports_append reports_one_step, simp add: reports_def)

lemma mock1_step_any:
  "training_step mock1 G 0 step batch_ex best (s, l)
     = (if (step + 1) mod 500 = 0 then eval_block mock1 G 0 best else ret best)
         (s\<lparr>torch := Suc (torch s)\<rparr>, l @ step_events)"
  by (simp add: training_step_def batch_ex_fields bind_def of_result_def LP_Model_mock1
      DotPredictor_pair ret_def tcall_def emit_def mock1_ops step_events_def)

lemma mock1_plain_steps_any:
  "step + n < 500 \<Longrightarrow>
   loop_steps mock1 G 0 step (replicate n batch_ex @ rest) best (s, l)
     = loop_steps mock1 G 0 (step + n) rest best
         (s\<lparr>torch := torch s + n\<rparr>, l @ concat (replicate n step_events))"
proof (induction n arbitrary: step s l)
  case 0
  show ?case by simp
next
  case (Suc n)
  then have "(step + 1) mod 500 \<noteq> 0" by simp
  with mock1_step_any [of G step best s l] Suc.IH [of "Suc step"] Suc.prems show ?case
    by (simp add: bind_def ret_def)
qed

lemma globals_zero_fields:
  "the_graph globals_zero = cora_ex" "node_features globals_zero = feat_ex"
  "node_labels globals_zero = [0, 1, 0, 0]" "num_classes globals_zero = 2"
  "train_nids globals_zero = [0]" "valid_nids globals_zero = [2]" "test_nids globals_zero = [2, 3]"
  by (simp_all add: globals_zero_def globals_ex_def)

lemma mock1_evaluate_zero:
  "evaluate mock1 2 feat_ex [0, 1, 0, 0] [0] [2] [2, 3] (s, l)
     = (Inr (Num 0, Num (1 / 2)), (s\<lparr>torch := torch s + 2\<rparr>,
          l @ [NewLinear 2 2, NewOptimizer, OptStep, LossEval (Fin 0), OptStep, LossEval (Fin 0),
               PrintConverged 1, ClassifierCall]))"
proof -
  have sc: "score_on feat_ex [0, 1, 0, 0] [2] = Inr (Num 0)"
    "score_on feat_ex [0, 1, 0, 0] [2, 3] = Inr (Num (1 / 2))"
    by (simp_all add: score_on_def then_r_def index_rows_def py_index_def argmax1_def
        accuracy_score_def float_mean_def feat_ex_def)
  have nc: "ncols feat_ex = 2" by (simp add: feat_ex_def)
  show ?thesis
    by (simp add: evaluate_def evaluate_fit_def evaluate_score_def bind_def tcall_def mock1_ops
        mock1_fit sc nc of_result_def ret_def)
qed

lemma mock1_eval_block_zero:
  "eval_block mock1 globals_zero 0 (Num 0) (s, l)
     = (Inr (Num 0), (s\<lparr>torch := torch s + 2\<rparr>,
          l @ [EvalMode, Batches 1, ConvCall 0, ConvCall 1, NewLinear 2 2, NewOptimizer,
               OptStep, LossEval (Fin 0), OptStep, LossEval (Fin 0), PrintConverged 1,
               ClassifierCall, PrintEval 0 (Num 0) (Num (1 / 2)), TrainMode]))"
  by (simp add: eval_block_def globals_zero_fields bind_def tcall_def mock1_ops mock1_inference
      mock1_evaluate_zero emit_def ret_def)

lemma mock1_run_500_zero:
  "training_loop mock1 globals_zero (replicate 500 batch_ex) (s, l)
     = (Inr (Num 0), (s\<lparr>torch := torch s + 502\<rparr>,
          l @ concat (replicate 500 step_events)
            @ [EvalMode, Batches 1, ConvCall 0, ConvCall 1, NewLinear 2 2, NewOptimizer,
               OptStep, LossEval (Fin 0), OptStep, LossEval (Fin 0), PrintConverged 1,
               ClassifierCall, PrintEval 0 (Num 0) (Num (1 / 2)), TrainMode]))"
proof -
  have r: "replicate 500 batch_ex = replicate 499 batch_ex @ [batch_ex]"
    using replicate_add [of 499 1 batch_ex] by simp
  have c: "concat (replicate 500 step_events) = concat (replicate 499 step_events) @ step_events"
    using replicate_add [of 499 1 step_events] by simp
  show ?thesis
    unfolding training_loop_def r c
    by (simp add: mock1_plain_steps_any mock1_step_any mock1_eval_block_zero bind_def ret_def
        add.commute [of 502])
qed

text \<open>
  C10, as it stands, fails. With a model whose validation accuracy is 0 in every epoch
  and whose test accuracy is 1/2, \<open>train\<close> ends with \<open>best_val_acc = 0\<close> and
  \<open>best_test_acc = 0\<close>: the largest validation accuracy is 0 and the first epoch attains
  it, with test accuracy 1/2, but \<open>best_val_acc < val_acc\<close> never holds and
  \<open>best_test_acc\<close> keeps its initial value. In the link prediction loop a first
  validation accuracy of 0 exceeds every accuracy computed before, there being none, and
  yet no file is written.
\<close>

theorem best_test_acc_counterexample:
  "fst (train_loop mock1 cora_ex (GCN_model mock1) (env0, [])) = Inr (Num 0, Num 0)
   \<and> read_cora cora_ex = Inr cora_rec
   \<and> map (val_test cora_rec)
        (model_outputs (snd (snd (train_loop mock1 cora_ex (GCN_model mock1) (env0, [])))))
       = replicate 100 (Inr (Num 0, Num (1 / 2)))
   \<and> claimed_best (replicate 100 (Num 0, Num (1 / 2))) = (Num 0, Num (1 / 2))
   \<and> reports (snd (snd (training_loop mock1 globals_zero (replicate 500 batch_ex) (env0, []))))
       = [PrintEval 0 (Num 0) (Num (1 / 2))]
   \<and> files (fst (snd (training_loop mock1 globals_zero (replicate 500 batch_ex) (env0, []))))
        best_model_path = None"
proof -
  have "reports (snd (snd (training_loop mock1 globals_zero (replicate 500 batch_ex) (env0, []))))
       = [PrintEval 0 (Num 0) (Num (1 / 2))]"
    unfolding mock1_run_500_zero snd_conv append_Nil reports_append reports_step_events
    by (simp add: reports_def)
  moreover have "files (fst (snd (training_loop mock1 globals_zero (replicate 500 batch_ex) (env0, []))))
        best_model_path = None"
    unfolding mock1_run_500_zero by (simp add: env0_def)
  ultimately show ?thesis
    by (simp add: mock1_train_loop read_cora_ex mock1_train_loop_outputs val_test_ex
      claimed_best_replicate)
qed


text \<open>
  C10, amended. In \<open>train\<close>, after any number of epochs, \<open>best_val_acc\<close> and
  \<open>best_test_acc\<close> are the largest validation accuracy and the test accuracy of the
  first epoch attaining it, when the initial values 0 and 0 are counted as an epoch before
  the first: \<open>best_val_acc\<close> is the maximum of 0 and the validation accuracies so far,
  and \<open>best_test_acc\<close> stays 0 until a validation accuracy exceeds 0. In the link
  prediction loop \<open>best_accuracy\<close> never decreases in a step; the loop evaluates once
  every 500 steps, prints the two accuracies, and writes the file at \<open>best_model_path\<close>
  exactly when the new validation accuracy is a number that strictly exceeds 0 and every
  validation accuracy computed before; in the end \<open>best_accuracy\<close> is the maximum of 0
  and the validation accuracies.
\<close>

theorem best_tracking:
  "(train_epochs L g model d n e (Num 0, Num 0) (s, l) = (Inr best, (s', l')) \<longrightarrow>
      (\<exists>vts. map (val_test d) (model_outputs (drop (length l) l')) = map Inr vts
         \<and> length vts = n \<and> best = claimed_best ((Num 0, Num 0) # vts)))
   \<and> (training_step L G epoch step b (Num x) (t, k) = (Inr acc, (t', k')) \<longrightarrow>
        (\<exists>y. acc = Num y \<and> x \<le> y))
   \<and> (training_loop L G bs (u, m) = (Inr final, (u', m')) \<longrightarrow>
        (\<exists>vas. reports (drop (length m) m') = report_events 0 [0] vas
           \<and> length vas = length bs div 500
           \<and> final = Num (Max (set (0 # nums (map fst vas))))))"
proof (intro conjI impI)
  assume "train_epochs L g model d n e (Num 0, Num 0) (s, l) = (Inr best, (s', l'))"
  then show "\<exists>vts. map (val_test d) (model_outputs (drop (length l) l')) = map Inr vts
      \<and> length vts = n \<and> best = claimed_best ((Num 0, Num 0) # vts)"
    by (rule train_epochs_claimed_best)
next
  assume "training_step L G epoch step b (Num x) (t, k) = (Inr acc, (t', k'))"
  then show "\<exists>y. acc = Num y \<and> x \<le> y"
    by (rule training_step_grows)
next
  assume "training_loop L G bs (u, m) = (Inr final, (u', m'))"
  then show "\<exists>vas. reports (drop (length m) m') = report_events 0 [0] vas
      \<and> length vas = length bs div 500
      \<and> final = Num (Max (set (0 # nums (map fst vas))))"
    by (rule training_loop_reports)
qed

lemma reports_eval_events:
  "reports eval_events = [PrintEval 0 (Num 1) (Num (1 / 2)), Save ''model.pt'']"
  by (simp add: reports_def eval_events_def)

lemma mock1_step_499:
  "\<exists>s1. training_step mock1 globals_ex 0 499 batch_ex (Num 0) (env0, [])
     = (Inr (Num 1), (s1, step_events @ eval_events))"
  by (simp add: mock1_step_prefix mock1_eval_block)

theorem best_tracking_witness:
  "claimed_best ((Num 0, Num 0) # replicate 100 (Num 0, Num (1 / 2))) = (Num 0, Num 0)
   \<and> (\<exists>y. fst (training_step mock1 globals_ex 0 499 batch_ex (Num 0) (env0, [])) = Inr (Num y)
         \<and> 0 \<le> y)
   \<and> (\<exists>vas. length vas = 1
         \<and> reports (snd (snd (training_loop mock1 globals_ex (replicate 500 batch_ex) (env0, []))))
             = report_events 0 [0] vas)
   \<and> reports (snd (snd (training_loop mock1 globals_ex (replicate 500 batch_ex) (env0, []))))
       = [PrintEval 0 (Num 1) (Num (1 / 2)), Save ''model.pt'']"
proof -
  obtain s1 l1 where run1: "train_epochs mock1 cora_ex (GCN_model mock1) cora_rec 100 0
      (Num 0, Num 0) (env0, []) = (Inr (Num 0, Num 0), (s1, l1))"
    using mock1_train_epochs [of 100 0 env0 "[]"]
    by (cases "train_epochs mock1 cora_ex (GCN_model mock1) cora_rec 100 0 (Num 0, Num 0) (env0, [])")
      auto
  have outs: "model_outputs l1 = replicate 100 feat_ex"
    using mock1_train_outputs [of 100 0 env0 "[]"] unfolding run1 by simp
  from mock1_step_499 obtain s2 where run2:
    "training_step mock1 globals_ex 0 499 batch_ex (Num 0) (env0, [])
       = (Inr (Num 1), (s2, step_events @ eval_events))"
    by (elim exE)
  obtain s3 l3 where run3: "training_loop mock1 globals_ex (replicate 500 batch_ex) (env0, [])
      = (Inr (Num 1), (s3, l3))"
    and l3: "l3 = concat (replicate 500 step_events) @ eval_events"
    using mock1_run_500 [of env0 "[]"] by simp
  note t = best_tracking [of mock1 cora_ex "GCN_model mock1" cora_rec 100 0 env0 "[]"
      "(Num 0, Num 0)" s1 l1 globals_ex 0 499 batch_ex 0 env0 "[]" "Num 1"
      s2 "step_events @ eval_events"
      "replicate 500 batch_ex" env0 "[]" "Num 1" s3 l3]
  from t [THEN conjunct1, THEN mp, OF run1] obtain vts where
    a: "map (val_test cora_rec) (model_outputs (drop (length ([] :: event list)) l1)) = map Inr vts"
      "(Num 0, Num 0) = claimed_best ((Num 0, Num 0) # vts)"
    by (elim exE conjE)
  have "map (Inr :: pyfloat \<times> pyfloat \<Rightarrow> exn + pyfloat \<times> pyfloat) vts
      = map Inr (replicate 100 (Num 0, Num (1 / 2)))"
    unfolding map_replicate
    using a(1) [unfolded list.size drop_0 outs map_replicate val_test_ex] by (rule sym)
  then have "vts = replicate 100 (Num 0, Num (1 / 2))"
    by (simp only: inj_map_eq_map [OF inj_Inr])
  with a(2) have 1: "claimed_best ((Num 0, Num 0) # replicate 100 (Num 0, Num (1 / 2))) = (Num 0, Num 0)"
    by (simp only:)
  from t [THEN conjunct2, THEN conjunct1, THEN mp, OF run2] obtain y where
    "Num 1 = Num y" "0 \<le> y"
    by (elim exE conjE)
  then have 2: "\<exists>y. fst (training_step mock1 globals_ex 0 499 batch_ex (Num 0) (env0, [])) = Inr (Num y)
         \<and> 0 \<le> y"
    unfolding run2 by auto
  from t [THEN conjunct2, THEN conjunct2, THEN mp, OF run3] obtain vas where
    b: "reports (drop (length ([] :: event list)) l3) = report_events 0 [0] vas"
      "length vas = length (replicate 500 batch_ex) div 500"
    by (elim exE conjE)
  from b have 3: "\<exists>vas. length vas = 1
         \<and> reports (snd (snd (training_loop mock1 globals_ex (replicate 500 batch_ex) (env0, []))))
             = report_events 0 [0] vas"
    unfolding run3 by (intro exI [of _ vas]) simp
  have 4: "reports (snd (snd (training_loop mock1 globals_ex (replicate 500 batch_ex) (env0, []))))
       = [PrintEval 0 (Num 1) (Num (1 / 2)), Save ''model.pt'']"
    unfolding run3 l3 by (simp only: snd_conv reports_append reports_step_events reports_eval_events
        append_Nil)
  show ?thesis by (intro conjI 1 2 3 4)
qed

end
